theory Spec2Isabelle
  imports Main "HOL-Library.Word" "HOL-Library.Sublist"
begin

unbundle bit_operations_syntax

section \<open>Data model of \<open>mqtt_filter.py\<close>\<close>

text \<open>
  Byte strings (\<open>bytes\<close>) are lists of 8-bit words. A Python \<open>str\<close> is held as the
  list of its UTF-8 code units (the form a protobuf string has on the wire), so that
  \<open>s.encode("utf-8")\<close> only changes the element type; equality, emptiness,
  \<open>rstrip\<close> of ASCII characters and \<open>replace\<close> agree on both forms.
\<close>

type_synonym byte = "8 word"
type_synonym bytes = "byte list"

text \<open>\<open>mesh_pb2.Data\<close>: \<open>bitfield\<close> is an optional field, \<open>HasField('bitfield')\<close> is
  \<open>bitfield d \<noteq> None\<close>.\<close>

record data =
  portnum :: int
  payload :: bytes
  bitfield :: "32 word option"

text \<open>\<open>mesh_pb2.MeshPacket\<close>, with the two payload fields as \<open>on_message\<close> observes
  them: \<open>HasField('decoded')\<close> is \<open>decoded p \<noteq> None\<close>, \<open>HasField('encrypted')\<close> is
  \<open>encrypted p \<noteq> None\<close>. The fields \<open>id\<close>, \<open>from\<close> and \<open>to\<close> carry the names of the
  locals \<open>packet_id\<close>, \<open>from_id\<close> and \<open>to_id\<close> that read them.\<close>

record packet =
  packet_id :: "64 word"
  from_id :: "32 word"
  to_id :: "32 word"
  channel :: nat
  decoded :: "data option"
  encrypted :: "bytes option"

text \<open>\<open>mqtt_pb2.ServiceEnvelope\<close>.\<close>

record envelope =
  channel_id :: string
  gateway_id :: string
  envelope_packet :: packet

text \<open>The \<open>self.stats\<close> dictionary: seven fixed keys, each an unbounded integer.\<close>

record stats =
  total :: int
  forwarded :: int
  rejected_encrypted :: int
  rejected_no_bitfield :: int
  rejected_bitfield_disabled :: int
  decrypted :: int
  decryption_failed :: int

definition init_stats :: stats where
  "init_stats = \<lparr>total = 0, forwarded = 0, rejected_encrypted = 0,
     rejected_no_bitfield = 0, rejected_bitfield_disabled = 0,
     decrypted = 0, decryption_failed = 0\<rparr>"

text \<open>The part of \<open>MeshtasticMQTTFilter\<close> that message handling reads and writes.\<close>

record filter_state =
  input_topic :: string
  output_topic :: string
  keys :: "(string \<times> bytes) list"
  stats :: stats

text \<open>An MQTT message as delivered to \<open>on_message\<close>.\<close>

record mqtt_msg =
  msg_topic :: string
  msg_payload :: bytes

text \<open>
  The libraries the filter calls, as parameters of the model:
  \<^item> \<open>sha256\<close>: \<open>hashlib.sha256\<close> of a byte string;
  \<^item> \<open>aes_keystream key nonce i\<close>: byte \<open>i\<close> of the AES-CTR key stream for a key and a
    16-byte initial counter block (counter mode XORs the input with this stream);
  \<^item> \<open>parse_data\<close>, \<open>parse_envelope\<close>: \<open>ParseFromString\<close> of the two protobuf messages,
    \<open>None\<close> where it raises \<open>DecodeError\<close>;
  \<^item> \<open>publish_raises topic payload\<close>: whether \<open>client.publish\<close> raises on these
    arguments.
\<close>

record externals =
  sha256 :: "bytes \<Rightarrow> bytes"
  aes_keystream :: "bytes \<Rightarrow> bytes \<Rightarrow> nat \<Rightarrow> byte"
  parse_data :: "bytes \<Rightarrow> data option"
  parse_envelope :: "bytes \<Rightarrow> envelope option"
  publish_raises :: "string \<Rightarrow> bytes \<Rightarrow> bool"

section \<open>Key derivation and trial decryption\<close>

definition encode_utf8 :: "string \<Rightarrow> bytes" where
  "encode_utf8 s = map (\<lambda>c. of_char c) s"

text \<open>\<open>_derive_key\<close>: the hash of base key and channel name unless the name is empty.\<close>

definition derive_key :: "externals \<Rightarrow> bytes \<Rightarrow> string \<Rightarrow> bytes" where
  "derive_key P base_key channel_name =
     (if channel_name \<noteq> [] \<and> channel_name \<noteq> ''''
      then sha256 P (base_key @ encode_utf8 channel_name)
      else base_key)"

text \<open>The key chosen at the head of the trial loop's body: \<open>_derive_key\<close> is called
  only for a channel name that is neither empty nor \<open>LongFast\<close>.\<close>

definition effective_key :: "externals \<Rightarrow> bytes \<Rightarrow> string \<Rightarrow> bytes" where
  "effective_key P base_key channel_name =
     (if channel_name \<noteq> [] \<and> channel_name \<notin> set [''LongFast'', '''']
      then derive_key P base_key channel_name
      else base_key)"

text \<open>\<open>n.to_bytes(8, byteorder='little')\<close> for a value below \<open>2 ^ 64\<close>.\<close>

definition to_bytes8_le :: "64 word \<Rightarrow> bytes" where
  "to_bytes8_le w = map (\<lambda>i. ucast (drop_bit (8 * i) w)) [0..<8]"

definition make_nonce :: "packet \<Rightarrow> bytes" where
  "make_nonce p = to_bytes8_le (packet_id p) @ to_bytes8_le (ucast (from_id p))"

text \<open>\<open>Cipher(AES(key), CTR(nonce)).decryptor().update(data)\<close>: the input XORed with
  the key stream. \<open>algorithms.AES\<close> raises \<open>ValueError\<close> for a key that is not 16, 24 or
  32 bytes long.\<close>

definition ctr_crypt :: "externals \<Rightarrow> bytes \<Rightarrow> bytes \<Rightarrow> bytes \<Rightarrow> bytes" where
  "ctr_crypt P key nonce xs =
     map (\<lambda>(i, b). b XOR aes_keystream P key nonce i) (enumerate 0 xs)"

definition aes_key_ok :: "bytes \<Rightarrow> bool" where
  "aes_key_ok key = (length key = 16 \<or> length key = 24 \<or> length key = 32)"

text \<open>One pass of the body of the loop over \<open>self.keys\<close> in \<open>_decrypt_packet\<close>:
  \<open>Some d\<close> when the pass reaches \<open>return True\<close> with the parsed \<open>Data\<close> \<open>d\<close>, \<open>None\<close>
  when it ends in \<open>continue\<close> (directly, or through the \<open>except\<close> clause).\<close>

definition try_key :: "externals \<Rightarrow> packet \<Rightarrow> bytes \<Rightarrow> string \<Rightarrow> bytes \<Rightarrow> data option" where
  "try_key P p ct channel_name base_key =
     (let key = effective_key P base_key channel_name;
          nonce = make_nonce p
      in if length nonce \<noteq> 16 then None
         else if \<not> aes_key_ok key then None
         else (case parse_data P (ctr_crypt P key nonce ct) of
                 None \<Rightarrow> None
               | Some d \<Rightarrow> if portnum d = 0 then None else Some d))"

text \<open>The loop of \<open>_decrypt_packet\<close> and the statements after it. The result is the
  return value, the statistics and the packet.\<close>

fun decrypt_loop ::
  "externals \<Rightarrow> stats \<Rightarrow> packet \<Rightarrow> bytes \<Rightarrow> string \<Rightarrow> (string \<times> bytes) list
     \<Rightarrow> bool \<times> stats \<times> packet" where
  "decrypt_loop P st p ct channel_name [] =
     (False, st\<lparr>decryption_failed := decryption_failed st + 1\<rparr>, p)"
| "decrypt_loop P st p ct channel_name ((key_name, base_key) # rest) =
     (case try_key P p ct channel_name base_key of
        Some d \<Rightarrow> (True, st\<lparr>decrypted := decrypted st + 1\<rparr>,
                   p\<lparr>decoded := Some d, encrypted := None\<rparr>)
      | None \<Rightarrow> decrypt_loop P st p ct channel_name rest)"

definition decrypt_packet ::
  "externals \<Rightarrow> (string \<times> bytes) list \<Rightarrow> stats \<Rightarrow> packet \<Rightarrow> string
     \<Rightarrow> bool \<times> stats \<times> packet" where
  "decrypt_packet P ks st p channel_name =
     (case encrypted p of
        None \<Rightarrow> (False, st, p)
      | Some ct \<Rightarrow>
          if length ct = 0 then (False, st, p)
          else decrypt_loop P st p ct channel_name ks)"

section \<open>Admission check\<close>

text \<open>\<open>_check_ok_to_mqtt\<close>: the return value and the statistics.\<close>

definition check_ok_to_mqtt :: "stats \<Rightarrow> envelope \<Rightarrow> packet \<Rightarrow> bool \<times> stats" where
  "check_ok_to_mqtt st env p =
     (case decoded p of
        None \<Rightarrow> (False, st\<lparr>rejected_encrypted := rejected_encrypted st + 1\<rparr>)
      | Some d \<Rightarrow>
          (case bitfield d of
             Some b \<Rightarrow>
               (let is_ok = (b AND 1 \<noteq> 0)
                in if \<not> is_ok
                   then (False, st\<lparr>rejected_bitfield_disabled :=
                                      rejected_bitfield_disabled st + 1\<rparr>)
                   else (True, st))
           | None \<Rightarrow> (False, st\<lparr>rejected_no_bitfield := rejected_no_bitfield st + 1\<rparr>)))"

section \<open>Topic rewrite\<close>

text \<open>\<open>s.rstrip(chars)\<close>: drop the longest suffix made of characters of \<open>chars\<close>.\<close>

definition rstrip :: "string \<Rightarrow> string \<Rightarrow> string" where
  "rstrip chars s = rev (dropWhile (\<lambda>c. c \<in> set chars) (rev s))"

text \<open>\<open>s.replace(old, new, 1)\<close>: the leftmost occurrence of \<open>old\<close> is replaced; an
  empty \<open>old\<close> occurs at position 0.\<close>

fun replace_first :: "string \<Rightarrow> string \<Rightarrow> string \<Rightarrow> string" where
  "replace_first old new [] = (if old = [] then new else [])"
| "replace_first old new (c # cs) =
     (if take (length old) (c # cs) = old then new @ drop (length old) (c # cs)
      else c # replace_first old new cs)"

text \<open>The expression that computes \<open>output_topic\<close> in \<open>on_message\<close>.\<close>

definition rewrite_topic :: "string \<Rightarrow> string \<Rightarrow> string \<Rightarrow> string" where
  "rewrite_topic topic inp outp =
     replace_first (rstrip ''/#'' inp) (rstrip ''/#'' outp) topic"

section \<open>The message handler\<close>

text \<open>
  \<open>on_message\<close>: the new filter state and the list of messages handed to
  \<open>client.publish\<close> that it accepted. Every exit through the \<open>except Exception\<close> clause is
  a branch that returns the state reached so far and publishes nothing:
  \<^item> \<open>ParseFromString\<close> raises on the payload;
  \<^item> the packet arrives with \<open>decoded\<close> set: the debug line for it formats
    \<open>packet.decoded.bitfield\<close> with the format specification
    \<open>02x if packet.decoded.HasField('bitfield') else 0\<close>, which \<open>int.__format__\<close>
    rejects with \<open>ValueError\<close> (the f-string is evaluated at every log level);
  \<^item> \<open>client.publish\<close> raises.
  Logging, \<open>_print_stats\<close> and the wall-clock timer of the summary change none of the
  fields modelled here.
\<close>

definition on_message ::
  "externals \<Rightarrow> filter_state \<Rightarrow> mqtt_msg \<Rightarrow> filter_state \<times> (string \<times> bytes) list" where
  "on_message P self msg =
     (let st1 = (stats self)\<lparr>total := total (stats self) + 1\<rparr> in
      case parse_envelope P (msg_payload msg) of
        None \<Rightarrow> (self\<lparr>stats := st1\<rparr>, [])
      | Some env \<Rightarrow>
          let p = envelope_packet env in
          if decoded p \<noteq> None then (self\<lparr>stats := st1\<rparr>, [])
          else
            let (st2, p2) =
                  (if decoded p = None \<and> encrypted p \<noteq> None then
                     (if keys self \<noteq> [] then
                        (let channel_name = (if channel_id env \<noteq> [] then channel_id env else '''');
                             (ok, st', p') = decrypt_packet P (keys self) st1 p channel_name
                         in (st', p'))
                      else (st1, p))
                   else (st1, p));
                (is_ok_to_mqtt, st3) = check_ok_to_mqtt st2 (env\<lparr>envelope_packet := p2\<rparr>) p2
            in if is_ok_to_mqtt then
                 (let st4 = st3\<lparr>forwarded := forwarded st3 + 1\<rparr>;
                      out_topic = rewrite_topic (msg_topic msg) (input_topic self) (output_topic self)
                  in if publish_raises P out_topic (msg_payload msg)
                     then (self\<lparr>stats := st4\<rparr>, [])
                     else (self\<lparr>stats := st4\<rparr>, [(out_topic, msg_payload msg)]))
               else (self\<lparr>stats := st3\<rparr>, []))"

text \<open>The handler applied to a sequence of deliveries, oldest first.\<close>

fun process :: "externals \<Rightarrow> filter_state \<Rightarrow> mqtt_msg list \<Rightarrow> filter_state \<times> (string \<times> bytes) list" where
  "process P self [] = (self, [])"
| "process P self (m # ms) =
     (let (self1, out1) = on_message P self m;
          (self2, out2) = process P self1 ms
      in (self2, out1 @ out2))"

text \<open>The sum of the counters of the outcomes of a message.\<close>

definition outcome_sum :: "stats \<Rightarrow> int" where
  "outcome_sum st = forwarded st + rejected_encrypted st + rejected_no_bitfield st
     + rejected_bitfield_disabled st"

section \<open>Stand-ins for the libraries, for evaluating the model\<close>

text \<open>
  Concrete values for the parameters, in the manner of the mocks of the test suite: a
  hash with a 32-byte result, a key stream that depends on key, counter block and
  position, a three-byte-header format for \<open>Data\<close> (port number, bitfield presence,
  bitfield value, then the payload), an envelope decoder given by the table of the
  payloads it accepts, and a client whose \<open>publish\<close> raises \<open>ValueError\<close> for an empty
  topic and for a topic with a wildcard character, as paho-mqtt's does.
\<close>

definition stub_sha256 :: "bytes \<Rightarrow> bytes" where
  "stub_sha256 bs = (sum_list bs + 1) # replicate 31 (of_nat (length bs))"

definition stub_keystream :: "bytes \<Rightarrow> bytes \<Rightarrow> nat \<Rightarrow> byte" where
  "stub_keystream key nonce i = sum_list key + sum_list nonce + of_nat i"

definition stub_parse_data :: "bytes \<Rightarrow> data option" where
  "stub_parse_data bs =
     (case bs of
        pn # has_bf # bf # rest \<Rightarrow>
          Some \<lparr>portnum = uint pn, payload = rest,
                bitfield = (if has_bf = 0 then None else Some (ucast bf))\<rparr>
      | _ \<Rightarrow> None)"

definition stub_publish_raises :: "string \<Rightarrow> bytes \<Rightarrow> bool" where
  "stub_publish_raises t pl = (t = [] \<or> CHR ''+'' \<in> set t \<or> CHR ''#'' \<in> set t)"

definition stub_externals :: "(bytes \<times> envelope) list \<Rightarrow> externals" where
  "stub_externals table =
     \<lparr>sha256 = stub_sha256, aes_keystream = stub_keystream,
      parse_data = stub_parse_data, parse_envelope = map_of table,
      publish_raises = stub_publish_raises\<rparr>"

section \<open>Inputs of the test suite\<close>

text \<open>\<open>DEFAULT_KEY\<close>, the base64 text \<open>1PG7OiApB1nwvP+rz05pAQ==\<close> decoded.\<close>

definition DEFAULT_KEY :: bytes where
  "DEFAULT_KEY = [0xd4, 0xf1, 0xbb, 0x3a, 0x20, 0x29, 0x07, 0x59,
                  0xf0, 0xbc, 0xff, 0xab, 0xcf, 0x4e, 0x69, 0x01]"

text \<open>The packets the tests build: sender \<open>0x12345678\<close>, with a given payload state.\<close>

definition test_packet :: "data option \<Rightarrow> bytes option \<Rightarrow> packet" where
  "test_packet d e =
     \<lparr>packet_id = 123456, from_id = 0x12345678, to_id = 0xFFFFFFFF, channel = 0,
      decoded = d, encrypted = e\<rparr>"

definition test_envelope :: "string \<Rightarrow> packet \<Rightarrow> envelope" where
  "test_envelope cid p = \<lparr>channel_id = cid, gateway_id = ''!87654321'', envelope_packet = p\<rparr>"

definition test_data :: "32 word option \<Rightarrow> data" where
  "test_data bf = \<lparr>portnum = 1, payload = [], bitfield = bf\<rparr>"

text \<open>A plaintext in the stand-in \<open>Data\<close> format (port 1, bitfield \<open>0x01\<close>, payload
  \<open>Hi\<close>), the \<open>Data\<close> it parses to, and its encryption under \<open>DEFAULT_KEY\<close> with the
  nonce of \<open>test_packet\<close> and the stand-in key stream.\<close>

definition test_plain :: bytes where
  "test_plain = [1, 1, 1, 72, 105]"

definition test_decoded :: data where
  "test_decoded = \<lparr>portnum = 1, payload = [72, 105], bitfield = Some 1\<rparr>"

definition test_cipher :: bytes where
  "test_cipher = [118, 121, 120, 50, 18]"

text \<open>Custom keys: one that is no AES key, one under which \<open>test_cipher\<close> decrypts to
  a \<open>Data\<close> with port number 0, and one under which it decrypts to another \<open>Data\<close>.\<close>

definition short_key :: bytes where
  "short_key = [1, 2, 3, 4, 5]"

definition zero_port_key :: bytes where
  "zero_port_key = [63, 0, 0, 0, 0, 0, 0, 0, 0, 0, 0, 0, 0, 0, 0, 0]"

definition other_key :: bytes where
  "other_key = [7, 0, 0, 0, 0, 0, 0, 0, 0, 0, 0, 0, 0, 0, 0, 0]"

definition test_ring :: "(string \<times> bytes) list" where
  "test_ring = [(''custom-0'', short_key), (''custom-1'', zero_port_key),
                (''default'', DEFAULT_KEY), (''custom-2'', other_key)]"

definition miss_ring :: "(string \<times> bytes) list" where
  "miss_ring = [(''custom-0'', short_key), (''custom-1'', zero_port_key)]"

section \<open>Deliveries for evaluating the handler\<close>

text \<open>Two payloads, one that the stand-in envelope decoder accepts (as the envelope of
  an encrypted packet on \<open>LongFast\<close>) and one that it rejects, a filter subscribed to
  \<open>msh/test/#\<close>, and a message on a topic below it.\<close>

definition enc_payload :: bytes where
  "enc_payload = [10, 1]"

definition bad_payload :: bytes where
  "bad_payload = [255, 255]"

definition test_table :: "(bytes \<times> envelope) list" where
  "test_table = [(enc_payload, test_envelope ''LongFast'' (test_packet None (Some test_cipher)))]"

definition test_filter :: "(string \<times> bytes) list \<Rightarrow> string \<Rightarrow> filter_state" where
  "test_filter ks outp =
     \<lparr>input_topic = ''msh/test/#'', output_topic = outp, keys = ks, stats = init_stats\<rparr>"

definition test_msg :: "bytes \<Rightarrow> mqtt_msg" where
  "test_msg pl = \<lparr>msg_topic = ''msh/test/2/e/LongFast/!12345678'', msg_payload = pl\<rparr>"

section \<open>Outcome counters\<close>

text \<open>\<open>outcome_step s s'\<close>: from \<open>s\<close> to \<open>s'\<close> either none of \<open>forwarded\<close> and the three
  \<open>rejected_*\<close> counters changed, or exactly one of them grew by one.
  \<open>same_outcomes s s'\<close>: none of the four changed. \<open>one_outcome s s'\<close>: exactly one
  of them grew by one and the other three did not change.\<close>

definition outcome_step :: "stats \<Rightarrow> stats \<Rightarrow> bool" where
  "outcome_step s s' =
     ((forwarded s' = forwarded s \<and> rejected_encrypted s' = rejected_encrypted s \<and>
       rejected_no_bitfield s' = rejected_no_bitfield s \<and>
       rejected_bitfield_disabled s' = rejected_bitfield_disabled s) \<or>
      (forwarded s' = forwarded s + 1 \<and> rejected_encrypted s' = rejected_encrypted s \<and>
       rejected_no_bitfield s' = rejected_no_bitfield s \<and>
       rejected_bitfield_disabled s' = rejected_bitfield_disabled s) \<or>
      (forwarded s' = forwarded s \<and> rejected_encrypted s' = rejected_encrypted s + 1 \<and>
       rejected_no_bitfield s' = rejected_no_bitfield s \<and>
       rejected_bitfield_disabled s' = rejected_bitfield_disabled s) \<or>
      (forwarded s' = forwarded s \<and> rejected_encrypted s' = rejected_encrypted s \<and>
       rejected_no_bitfield s' = rejected_no_bitfield s + 1 \<and>
       rejected_bitfield_disabled s' = rejected_bitfield_disabled s) \<or>
      (forwarded s' = forwarded s \<and> rejected_encrypted s' = rejected_encrypted s \<and>
       rejected_no_bitfield s' = rejected_no_bitfield s \<and>
       rejected_bitfield_disabled s' = rejected_bitfield_disabled s + 1))"

definition same_outcomes :: "stats \<Rightarrow> stats \<Rightarrow> bool" where
  "same_outcomes s s' =
     (forwarded s' = forwarded s \<and> rejected_encrypted s' = rejected_encrypted s \<and>
      rejected_no_bitfield s' = rejected_no_bitfield s \<and>
      rejected_bitfield_disabled s' = rejected_bitfield_disabled s)"

definition one_outcome :: "stats \<Rightarrow> stats \<Rightarrow> bool" where
  "one_outcome s s' =
     ((forwarded s' = forwarded s + 1 \<and> rejected_encrypted s' = rejected_encrypted s \<and>
       rejected_no_bitfield s' = rejected_no_bitfield s \<and>
       rejected_bitfield_disabled s' = rejected_bitfield_disabled s) \<or>
      (forwarded s' = forwarded s \<and> rejected_encrypted s' = rejected_encrypted s + 1 \<and>
       rejected_no_bitfield s' = rejected_no_bitfield s \<and>
       rejected_bitfield_disabled s' = rejected_bitfield_disabled s) \<or>
      (forwarded s' = forwarded s \<and> rejected_encrypted s' = rejected_encrypted s \<and>
       rejected_no_bitfield s' = rejected_no_bitfield s + 1 \<and>
       rejected_bitfield_disabled s' = rejected_bitfield_disabled s) \<or>
      (forwarded s' = forwarded s \<and> rejected_encrypted s' = rejected_encrypted s \<and>
       rejected_no_bitfield s' = rejected_no_bitfield s \<and>
       rejected_bitfield_disabled s' = rejected_bitfield_disabled s + 1))"

text \<open>The messages of a sequence whose payload deserializes, and those whose payload
  does not.\<close>

definition parsed_msgs :: "externals \<Rightarrow> mqtt_msg list \<Rightarrow> mqtt_msg list" where
  "parsed_msgs P ms = filter (\<lambda>m. parse_envelope P (msg_payload m) \<noteq> None) ms"

definition unparsed_msgs :: "externals \<Rightarrow> mqtt_msg list \<Rightarrow> mqtt_msg list" where
  "unparsed_msgs P ms = filter (\<lambda>m. parse_envelope P (msg_payload m) = None) ms"


section \<open>Counter mode and the nonce\<close>

lemma ctr_crypt_length: "length (ctr_crypt P key nonce xs) = length xs"
  by (simp add: ctr_crypt_def)

lemma ctr_crypt_nth:
  "i < length xs \<Longrightarrow> ctr_crypt P key nonce xs ! i = xs ! i XOR aes_keystream P key nonce i"
  by (simp add: ctr_crypt_def nth_enumerate_eq)

lemma ctr_crypt_involution: "ctr_crypt P key nonce (ctr_crypt P key nonce xs) = xs"
  by (rule nth_equalityI) (simp_all add: ctr_crypt_length ctr_crypt_nth xor.assoc)

lemma make_nonce_length: "length (make_nonce p) = 16"
  by (simp add: make_nonce_def to_bytes8_le_def)

section \<open>The trial loop\<close>

text \<open>The nonce always has 16 bytes, so a pass of the loop body fails exactly when the
  key has no AES length, the plaintext candidate does not parse, or it parses with port
  number 0.\<close>

lemma try_key_eq:
  "try_key P p ct cn base_key =
     (if aes_key_ok (effective_key P base_key cn)
      then (case parse_data P (ctr_crypt P (effective_key P base_key cn) (make_nonce p) ct) of
              None \<Rightarrow> None
            | Some d \<Rightarrow> if portnum d = 0 then None else Some d)
      else None)"
  by (simp add: try_key_def Let_def make_nonce_length)

lemma decrypt_loop_skip:
  "\<forall>e\<in>set ks1. try_key P p ct cn (snd e) = None \<Longrightarrow>
   decrypt_loop P st p ct cn (ks1 @ ks) = decrypt_loop P st p ct cn ks"
  by (induction ks1) auto

lemma decrypt_loop_all_fail:
  "\<forall>e\<in>set ks. try_key P p ct cn (snd e) = None \<Longrightarrow>
   decrypt_loop P st p ct cn ks =
     (False, st\<lparr>decryption_failed := decryption_failed st + 1\<rparr>, p)"
  by (induction ks) auto

lemma decrypt_packet_loop:
  "encrypted p = Some ct \<Longrightarrow> ct \<noteq> [] \<Longrightarrow>
   decrypt_packet P ks st p cn = decrypt_loop P st p ct cn ks"
  by (simp add: decrypt_packet_def)

section \<open>Layout of the nonce\<close>

lemma ucast_byte_of_u32:
  "i < 4 \<Longrightarrow> (ucast (drop_bit (8 * i) (ucast (w::32 word) :: 64 word)) :: 8 word)
              = ucast (drop_bit (8 * i) w)"
  by (rule bit_word_eqI) (auto simp: bit_simps)

lemma ucast_byte_of_u32_high:
  "4 \<le> i \<Longrightarrow> (ucast (drop_bit (8 * i) (ucast (w::32 word) :: 64 word)) :: 8 word) = 0"
proof (rule bit_word_eqI)
  fix n
  assume "4 \<le> i"
  then have "\<not> bit w (8 * i + n)"
    using bit_imp_le_length [of w "8 * i + n"] by auto
  then show "bit (ucast (drop_bit (8 * i) (ucast w :: 64 word)) :: 8 word) n = bit (0 :: 8 word) n"
    by (simp add: bit_simps)
qed

lemma make_nonce_layout:
  "make_nonce p =
     map (\<lambda>i. ucast (drop_bit (8 * i) (packet_id p))) [0..<8] @
     map (\<lambda>i. ucast (drop_bit (8 * i) (from_id p))) [0..<4] @ [0, 0, 0, 0]"
proof -
  have "[0..<8] = [0, 1, 2, 3] @ [4, 5, 6, 7::nat]"
    by (simp add: upt_rec)
  then have "to_bytes8_le (ucast (from_id p)) =
      map (\<lambda>i. ucast (drop_bit (8 * i) (ucast (from_id p) :: 64 word))) [0, 1, 2, 3] @
      map (\<lambda>i. ucast (drop_bit (8 * i) (ucast (from_id p) :: 64 word))) [4, 5, 6, 7]"
    by (simp add: to_bytes8_le_def)
  also have "map (\<lambda>i. ucast (drop_bit (8 * i) (ucast (from_id p) :: 64 word))) [0, 1, 2, 3::nat]
      = (map (\<lambda>i. ucast (drop_bit (8 * i) (from_id p))) [0..<4] :: bytes)"
    using ucast_byte_of_u32 [of 0 "from_id p"] ucast_byte_of_u32 [of 1 "from_id p"]
      ucast_byte_of_u32 [of 2 "from_id p"] ucast_byte_of_u32 [of 3 "from_id p"]
    by (simp add: upt_rec)
  also have "map (\<lambda>i. ucast (drop_bit (8 * i) (ucast (from_id p) :: 64 word))) [4, 5, 6, 7::nat]
      = ([0, 0, 0, 0] :: bytes)"
    using ucast_byte_of_u32_high [of 4 "from_id p"] ucast_byte_of_u32_high [of 5 "from_id p"]
      ucast_byte_of_u32_high [of 6 "from_id p"] ucast_byte_of_u32_high [of 7 "from_id p"]
    by simp
  finally show ?thesis
    by (simp add: make_nonce_def to_bytes8_le_def)
qed

section \<open>Evaluation with the stand-ins\<close>

lemma stub_fields:
  "sha256 (stub_externals t) = stub_sha256"
  "parse_data (stub_externals t) = stub_parse_data"
  "parse_envelope (stub_externals t) = map_of t"
  "publish_raises (stub_externals t) = stub_publish_raises"
  by (simp_all add: stub_externals_def)

lemma stub_ctr:
  "ctr_crypt (stub_externals t) key nonce xs =
     map (\<lambda>(i, b). b XOR (sum_list key + sum_list nonce + of_nat i)) (enumerate 0 xs)"
  by (simp add: ctr_crypt_def stub_externals_def stub_keystream_def)

lemma test_nonce:
  "make_nonce (test_packet d e) = [64, 226, 1, 0, 0, 0, 0, 0, 120, 86, 52, 18, 0, 0, 0, 0]"
  by (simp add: make_nonce_def to_bytes8_le_def test_packet_def upt_rec)

lemma encrypt_test_plain:
  "ctr_crypt (stub_externals t) DEFAULT_KEY (make_nonce (test_packet d e)) test_plain = test_cipher"
  by (simp add: stub_ctr test_nonce DEFAULT_KEY_def test_plain_def test_cipher_def)

lemma decrypt_test_cipher:
  "ctr_crypt (stub_externals t) DEFAULT_KEY (make_nonce (test_packet d e)) test_cipher = test_plain"
  by (simp add: stub_ctr test_nonce DEFAULT_KEY_def test_plain_def test_cipher_def)

lemma decrypt_zero_port:
  "ctr_crypt (stub_externals t) zero_port_key (make_nonce (test_packet d e)) test_cipher
     = [0, 14, 0, 75, 104]"
  by (simp add: stub_ctr test_nonce zero_port_key_def test_cipher_def)

lemma decrypt_other_key:
  "ctr_crypt (stub_externals t) other_key (make_nonce (test_packet d e)) test_cipher
     = [72, 70, 56, 115, 80]"
  by (simp add: stub_ctr test_nonce other_key_def test_cipher_def)

lemma derived_other_channel:
  "effective_key (stub_externals t) DEFAULT_KEY ''Other'' = 67 # replicate 31 21"
  by (simp add: effective_key_def derive_key_def stub_fields stub_sha256_def DEFAULT_KEY_def
      encode_utf8_def)

lemma decrypt_derived_key:
  "ctr_crypt (stub_externals t) (67 # replicate 31 21) (make_nonce (test_packet d e)) test_cipher
     = [115, 127, 127, 58, 27]"
  by (simp add: stub_ctr test_nonce test_cipher_def sum_list_replicate)

lemma stub_parse_plain: "parse_data (stub_externals t) test_plain = Some test_decoded"
  by (simp add: stub_fields stub_parse_data_def test_plain_def test_decoded_def)

lemma key_lengths:
  "aes_key_ok DEFAULT_KEY" "aes_key_ok zero_port_key" "aes_key_ok other_key"
  "\<not> aes_key_ok short_key" "aes_key_ok (67 # replicate 31 21)"
  by (simp_all add: aes_key_ok_def DEFAULT_KEY_def zero_port_key_def other_key_def short_key_def)

lemma longfast_key: "effective_key P k ''LongFast'' = k"
  by (simp add: effective_key_def)

lemma try_short_key: "try_key (stub_externals t) p ct ''LongFast'' short_key = None"
  by (simp add: try_key_eq longfast_key key_lengths)

lemma try_zero_port_key:
  "try_key (stub_externals t) (test_packet d e) test_cipher ''LongFast'' zero_port_key = None"
  by (simp add: try_key_eq longfast_key key_lengths decrypt_zero_port stub_fields
      stub_parse_data_def)

lemma try_default_key:
  "try_key (stub_externals t) (test_packet d e) test_cipher ''LongFast'' DEFAULT_KEY
     = Some test_decoded"
  by (simp add: try_key_eq longfast_key key_lengths decrypt_test_cipher stub_parse_plain
      test_decoded_def)

lemma try_other_key:
  "try_key (stub_externals t) (test_packet d e) test_cipher ''LongFast'' other_key
     = Some \<lparr>portnum = 72, payload = [115, 80], bitfield = Some 56\<rparr>"
  by (simp add: try_key_eq longfast_key key_lengths decrypt_other_key stub_fields
      stub_parse_data_def)

lemma try_default_key_other_channel:
  "try_key (stub_externals t) (test_packet d e) test_cipher ''Other'' DEFAULT_KEY
     = Some \<lparr>portnum = 115, payload = [58, 27], bitfield = Some 127\<rparr>"
  by (simp add: try_key_eq derived_other_channel key_lengths decrypt_derived_key stub_fields
      stub_parse_data_def)

section \<open>Admission\<close>

lemma and_1_bit0: "((b::32 word) AND 1 \<noteq> 0) = bit b 0"
  by (simp add: bit_0 and_one_eq even_iff_mod_2_eq_zero)

text \<open>
  C1 (the behaviour of the code at the inputs of \<open>test_exempt_node_bypasses_filter\<close>
  and \<open>test_forward_exempt_node_message\<close>). \<open>_check_ok_to_mqtt\<close> consults no set of
  exempt senders: the packet from \<open>0x12345678\<close> that is still undecoded is rejected as
  encrypted, and the one whose bitfield is \<open>0x00\<close> is rejected as disabled, where the
  claim and the tests expect a forwarding verdict for an exempt sender.
\<close>

theorem exempt_sender_not_forwarded:
  "check_ok_to_mqtt init_stats (test_envelope [] (test_packet None None)) (test_packet None None)
     = (False, init_stats\<lparr>rejected_encrypted := 1\<rparr>) \<and>
   check_ok_to_mqtt init_stats (test_envelope [] (test_packet (Some (test_data (Some 0))) None))
       (test_packet (Some (test_data (Some 0))) None)
     = (False, init_stats\<lparr>rejected_bitfield_disabled := 1\<rparr>)"
  by (simp add: check_ok_to_mqtt_def test_packet_def test_data_def init_stats_def)

text \<open>
  C4. For every sender: a packet without decoded \<open>Data\<close> is rejected and counted in
  \<open>rejected_encrypted\<close>, whatever else it carries; a packet with \<open>Data\<close> that has no
  bitfield is rejected and counted in \<open>rejected_no_bitfield\<close>; with a bitfield, the
  packet is accepted (\<open>True\<close>, no rejection counter touched) when bit 0 is set and
  rejected and counted in \<open>rejected_bitfield_disabled\<close> when it is clear.
\<close>

theorem check_ok_to_mqtt_priority:
  "(decoded p = None \<longrightarrow>
      check_ok_to_mqtt st env p =
        (False, st\<lparr>rejected_encrypted := rejected_encrypted st + 1\<rparr>)) \<and>
   (\<forall>d. decoded p = Some d \<and> bitfield d = None \<longrightarrow>
      check_ok_to_mqtt st env p =
        (False, st\<lparr>rejected_no_bitfield := rejected_no_bitfield st + 1\<rparr>)) \<and>
   (\<forall>d b. decoded p = Some d \<and> bitfield d = Some b \<and> bit b 0 \<longrightarrow>
      check_ok_to_mqtt st env p = (True, st)) \<and>
   (\<forall>d b. decoded p = Some d \<and> bitfield d = Some b \<and> \<not> bit b 0 \<longrightarrow>
      check_ok_to_mqtt st env p =
        (False, st\<lparr>rejected_bitfield_disabled := rejected_bitfield_disabled st + 1\<rparr>))"
  by (simp add: check_ok_to_mqtt_def and_1_bit0 Let_def)

theorem check_ok_to_mqtt_priority_witness:
  "check_ok_to_mqtt init_stats (test_envelope ''LongFast'' (test_packet None (Some [1, 2, 3])))
       (test_packet None (Some [1, 2, 3]))
     = (False, init_stats\<lparr>rejected_encrypted := 1\<rparr>) \<and>
   check_ok_to_mqtt init_stats (test_envelope ''LongFast'' (test_packet (Some (test_data None)) None))
       (test_packet (Some (test_data None)) None)
     = (False, init_stats\<lparr>rejected_no_bitfield := 1\<rparr>) \<and>
   check_ok_to_mqtt init_stats (test_envelope ''LongFast'' (test_packet (Some (test_data (Some 1))) None))
       (test_packet (Some (test_data (Some 1))) None)
     = (True, init_stats) \<and>
   check_ok_to_mqtt init_stats (test_envelope ''LongFast'' (test_packet (Some (test_data (Some 0))) None))
       (test_packet (Some (test_data (Some 0))) None)
     = (False, init_stats\<lparr>rejected_bitfield_disabled := 1\<rparr>)"
proof -
  let ?e = "\<lambda>p. test_envelope ''LongFast'' p"
  let ?p1 = "test_packet None (Some [1, 2, 3])"
  let ?p2 = "test_packet (Some (test_data None)) None"
  let ?p3 = "test_packet (Some (test_data (Some 1))) None"
  let ?p4 = "test_packet (Some (test_data (Some 0))) None"
  have z: "rejected_encrypted init_stats = 0" "rejected_no_bitfield init_stats = 0"
    "rejected_bitfield_disabled init_stats = 0"
    by (simp_all add: init_stats_def)
  have h1: "decoded ?p1 = None"
    by (simp add: test_packet_def)
  have h2: "decoded ?p2 = Some (test_data None) \<and> bitfield (test_data None) = None"
    by (simp add: test_packet_def test_data_def)
  have h3: "decoded ?p3 = Some (test_data (Some 1)) \<and> bitfield (test_data (Some 1)) = Some 1
              \<and> bit (1::32 word) 0"
    by (simp add: test_packet_def test_data_def)
  have h4: "decoded ?p4 = Some (test_data (Some 0)) \<and> bitfield (test_data (Some 0)) = Some 0
              \<and> \<not> bit (0::32 word) 0"
    by (simp add: test_packet_def test_data_def)
  from h1 check_ok_to_mqtt_priority [of ?p1 init_stats "?e ?p1"]
  have c1: "check_ok_to_mqtt init_stats (?e ?p1) ?p1 = (False, init_stats\<lparr>rejected_encrypted := 1\<rparr>)"
    by (simp add: z)
  from h2 check_ok_to_mqtt_priority [of ?p2 init_stats "?e ?p2"]
  have c2: "check_ok_to_mqtt init_stats (?e ?p2) ?p2 = (False, init_stats\<lparr>rejected_no_bitfield := 1\<rparr>)"
    by (simp add: z)
  from h3 check_ok_to_mqtt_priority [of ?p3 init_stats "?e ?p3"]
  have c3: "check_ok_to_mqtt init_stats (?e ?p3) ?p3 = (True, init_stats)"
    by blast
  from h4 check_ok_to_mqtt_priority [of ?p4 init_stats "?e ?p4"]
  have c4: "check_ok_to_mqtt init_stats (?e ?p4) ?p4 = (False, init_stats\<lparr>rejected_bitfield_disabled := 1\<rparr>)"
    by (simp add: z)
  from c1 c2 c3 c4 show ?thesis by blast
qed

section \<open>Key derivation\<close>

text \<open>
  C3. The key the trial loop uses for a base key and a channel name is the base key
  itself when the name is empty or \<open>LongFast\<close>, and otherwise the SHA-256 digest of the
  base key followed by the UTF-8 bytes of the name (32 bytes long, as every digest of
  the hash is); the loop body decrypts with exactly this key. Being a function of base
  key and name, the result is the same at every call. The exemption of \<open>LongFast\<close> is
  made by the loop body, not inside \<open>_derive_key\<close>.
\<close>

theorem effective_key_rule:
  "(cn = [] \<or> cn = ''LongFast'' \<longrightarrow> effective_key P base_key cn = base_key) \<and>
   (cn \<noteq> [] \<and> cn \<noteq> ''LongFast'' \<longrightarrow>
      effective_key P base_key cn = sha256 P (base_key @ encode_utf8 cn) \<and>
      ((\<forall>x. length (sha256 P x) = 32) \<longrightarrow> length (effective_key P base_key cn) = 32)) \<and>
   try_key P p ct cn base_key =
     (if aes_key_ok (effective_key P base_key cn)
      then (case parse_data P (ctr_crypt P (effective_key P base_key cn) (make_nonce p) ct) of
              None \<Rightarrow> None
            | Some d \<Rightarrow> if portnum d = 0 then None else Some d)
      else None)"
  by (simp add: effective_key_def derive_key_def try_key_eq)

theorem effective_key_rule_witness:
  "effective_key (stub_externals []) DEFAULT_KEY [] = DEFAULT_KEY \<and>
   effective_key (stub_externals []) DEFAULT_KEY ''LongFast'' = DEFAULT_KEY \<and>
   effective_key (stub_externals []) DEFAULT_KEY ''OtherChannel''
     = sha256 (stub_externals []) (DEFAULT_KEY @ encode_utf8 ''OtherChannel'') \<and>
   length (effective_key (stub_externals []) DEFAULT_KEY ''OtherChannel'') = 32"
proof -
  have len: "\<forall>x. length (sha256 (stub_externals []) x) = 32"
    by (simp add: stub_externals_def stub_sha256_def)
  have ne: "''OtherChannel'' \<noteq> [] \<and> ''OtherChannel'' \<noteq> ''LongFast''"
    by simp
  from effective_key_rule [of "[]" "stub_externals []" DEFAULT_KEY]
  have a: "effective_key (stub_externals []) DEFAULT_KEY [] = DEFAULT_KEY"
    by simp
  from effective_key_rule [of "''LongFast''" "stub_externals []" DEFAULT_KEY]
  have b: "effective_key (stub_externals []) DEFAULT_KEY ''LongFast'' = DEFAULT_KEY"
    by simp
  from ne len effective_key_rule [of "''OtherChannel''" "stub_externals []" DEFAULT_KEY]
  have c: "effective_key (stub_externals []) DEFAULT_KEY ''OtherChannel''
             = sha256 (stub_externals []) (DEFAULT_KEY @ encode_utf8 ''OtherChannel'') \<and>
           length (effective_key (stub_externals []) DEFAULT_KEY ''OtherChannel'') = 32"
    by blast
  from a b c show ?thesis by blast
qed
section \<open>Trial decryption\<close>

text \<open>
  C5. Let the packet carry a non-empty ciphertext, let every key before an entry of the
  ring end its pass of the loop in \<open>continue\<close>, and let the entry's key be an AES key
  under which the ciphertext decrypts to bytes that parse as a \<open>Data\<close> \<open>d\<close>. If the port
  number of \<open>d\<close> is not 0, \<open>_decrypt_packet\<close> returns \<open>True\<close> with \<open>decoded\<close> set to \<open>d\<close>,
  \<open>encrypted\<close> cleared and \<open>decrypted\<close> one higher, whatever keys follow in the ring (none
  of them is tried). If the port number is 0, the entry is passed over like a wrong key:
  the result is that of the loop over the keys after it.
\<close>

theorem trial_loop_first_valid_key:
  assumes enc: "encrypted p = Some ct" and ne: "ct \<noteq> []"
    and earlier: "\<forall>e\<in>set ks1. try_key P p ct cn (snd e) = None"
    and key: "aes_key_ok (effective_key P base_key cn)"
    and parse: "parse_data P (ctr_crypt P (effective_key P base_key cn) (make_nonce p) ct) = Some d"
  shows "(portnum d \<noteq> 0 \<longrightarrow>
            decrypt_packet P (ks1 @ (key_name, base_key) # ks2) st p cn =
              (True, st\<lparr>decrypted := decrypted st + 1\<rparr>,
               p\<lparr>decoded := Some d, encrypted := None\<rparr>)) \<and>
         (portnum d = 0 \<longrightarrow>
            decrypt_packet P (ks1 @ (key_name, base_key) # ks2) st p cn =
              decrypt_packet P ks2 st p cn)"
proof -
  have tk: "try_key P p ct cn base_key = (if portnum d = 0 then None else Some d)"
    using key parse by (simp add: try_key_eq)
  have "decrypt_packet P (ks1 @ (key_name, base_key) # ks2) st p cn =
          decrypt_loop P st p ct cn ((key_name, base_key) # ks2)"
    using enc ne earlier by (simp add: decrypt_packet_loop decrypt_loop_skip)
  moreover have "decrypt_packet P ks2 st p cn = decrypt_loop P st p ct cn ks2"
    using enc ne by (simp add: decrypt_packet_loop)
  ultimately show ?thesis
    using tk by simp
qed

theorem trial_loop_first_valid_key_witness:
  "decrypt_packet (stub_externals []) test_ring init_stats
       (test_packet None (Some test_cipher)) ''LongFast''
     = (True, init_stats\<lparr>decrypted := 1\<rparr>, test_packet (Some test_decoded) None) \<and>
   decrypt_packet (stub_externals []) [(''custom-1'', zero_port_key), (''default'', DEFAULT_KEY)]
       init_stats (test_packet None (Some test_cipher)) ''LongFast''
     = decrypt_packet (stub_externals []) [(''default'', DEFAULT_KEY)]
         init_stats (test_packet None (Some test_cipher)) ''LongFast''"
proof -
  let ?P = "stub_externals []"
  let ?p = "test_packet None (Some test_cipher)"
  have enc: "encrypted ?p = Some test_cipher"
    by (simp add: test_packet_def)
  have ne: "test_cipher \<noteq> []"
    by (simp add: test_cipher_def)
  have earlier: "\<forall>e\<in>set [(''custom-0'', short_key), (''custom-1'', zero_port_key)].
      try_key ?P ?p test_cipher ''LongFast'' (snd e) = None"
    by (simp add: try_short_key try_zero_port_key)
  have key: "aes_key_ok (effective_key ?P DEFAULT_KEY ''LongFast'')"
    by (simp add: longfast_key key_lengths)
  have parse: "parse_data ?P (ctr_crypt ?P (effective_key ?P DEFAULT_KEY ''LongFast'')
      (make_nonce ?p) test_cipher) = Some test_decoded"
    by (simp add: longfast_key decrypt_test_cipher stub_parse_plain)
  have pn: "portnum test_decoded \<noteq> 0"
    by (simp add: test_decoded_def)
  have upd: "?p\<lparr>decoded := Some test_decoded, encrypted := None\<rparr>
      = test_packet (Some test_decoded) None"
    by (simp add: test_packet_def)
  have dec0: "decrypted init_stats = 0"
    by (simp add: init_stats_def)
  have first: "decrypt_packet ?P test_ring init_stats ?p ''LongFast''
      = (True, init_stats\<lparr>decrypted := 1\<rparr>, test_packet (Some test_decoded) None)"
    using trial_loop_first_valid_key [OF enc ne earlier key parse,
        of "''default''" "[(''custom-2'', other_key)]" init_stats] pn upd dec0
    by (simp add: test_ring_def)
  have key0: "aes_key_ok (effective_key ?P zero_port_key ''LongFast'')"
    by (simp add: longfast_key key_lengths)
  have parse0: "parse_data ?P (ctr_crypt ?P (effective_key ?P zero_port_key ''LongFast'')
      (make_nonce ?p) test_cipher) = Some \<lparr>portnum = 0, payload = [75, 104], bitfield = Some 0\<rparr>"
    by (simp add: longfast_key decrypt_zero_port stub_fields stub_parse_data_def)
  have none: "\<forall>e\<in>set []. try_key ?P ?p test_cipher ''LongFast'' (snd e) = None"
    by simp
  have second: "decrypt_packet ?P [(''custom-1'', zero_port_key), (''default'', DEFAULT_KEY)]
        init_stats ?p ''LongFast''
      = decrypt_packet ?P [(''default'', DEFAULT_KEY)] init_stats ?p ''LongFast''"
    using trial_loop_first_valid_key [OF enc ne none key0 parse0,
        of "''custom-1''" "[(''default'', DEFAULT_KEY)]" init_stats]
    by simp
  from first second show ?thesis by blast
qed

text \<open>
  C6. Let the packet carry a non-empty ciphertext and let the ring be non-empty with no
  key that is an AES key under which the ciphertext decrypts to bytes parsing as a
  \<open>Data\<close> with a port number other than 0. Then \<open>_decrypt_packet\<close> returns \<open>False\<close>, the
  packet is the one it was given, \<open>decryption_failed\<close> is one higher and every other
  counter, \<open>decrypted\<close> among them, is unchanged.
\<close>

theorem decrypt_key_miss:
  assumes enc: "encrypted p = Some ct" and ne: "ct \<noteq> []" and ring: "ks \<noteq> []"
    and miss: "\<forall>e\<in>set ks. \<forall>d.
        aes_key_ok (effective_key P (snd e) cn) \<and>
        parse_data P (ctr_crypt P (effective_key P (snd e) cn) (make_nonce p) ct) = Some d
          \<longrightarrow> portnum d = 0"
  shows "decrypt_packet P ks st p cn =
           (False, st\<lparr>decryption_failed := decryption_failed st + 1\<rparr>, p) \<and>
         decrypted (fst (snd (decrypt_packet P ks st p cn))) = decrypted st"
proof -
  have "\<forall>e\<in>set ks. try_key P p ct cn (snd e) = None"
    using miss by (auto simp: try_key_eq split: option.splits)
  then have "decrypt_loop P st p ct cn ks =
      (False, st\<lparr>decryption_failed := decryption_failed st + 1\<rparr>, p)"
    by (rule decrypt_loop_all_fail)
  then show ?thesis
    using enc ne by (simp add: decrypt_packet_loop)
qed

theorem decrypt_key_miss_witness:
  "decrypt_packet (stub_externals []) miss_ring init_stats
       (test_packet None (Some test_cipher)) ''LongFast''
     = (False, init_stats\<lparr>decryption_failed := 1\<rparr>, test_packet None (Some test_cipher)) \<and>
   decrypted (fst (snd (decrypt_packet (stub_externals []) miss_ring init_stats
       (test_packet None (Some test_cipher)) ''LongFast''))) = 0"
proof -
  let ?P = "stub_externals []"
  let ?p = "test_packet None (Some test_cipher)"
  have enc: "encrypted ?p = Some test_cipher"
    by (simp add: test_packet_def)
  have ne: "test_cipher \<noteq> []"
    by (simp add: test_cipher_def)
  have ring: "miss_ring \<noteq> []"
    by (simp add: miss_ring_def)
  have miss: "\<forall>e\<in>set miss_ring. \<forall>d.
      aes_key_ok (effective_key ?P (snd e) ''LongFast'') \<and>
      parse_data ?P (ctr_crypt ?P (effective_key ?P (snd e) ''LongFast'') (make_nonce ?p) test_cipher)
        = Some d \<longrightarrow> portnum d = 0"
    by (auto simp: miss_ring_def longfast_key key_lengths decrypt_zero_port stub_fields
        stub_parse_data_def)
  have z: "decryption_failed init_stats = 0" "decrypted init_stats = 0"
    by (simp_all add: init_stats_def)
  from decrypt_key_miss [OF enc ne ring miss, of init_stats] z
  show ?thesis by simp
qed

text \<open>
  C7, amended. Let \<open>pt\<close> be non-empty bytes that parse as a \<open>Data\<close> \<open>d\<close> with a port number
  other than 0, and let the packet carry the AES-CTR encryption of \<open>pt\<close> under the key
  that the loop derives from a ring entry for the envelope's channel name (the entry's
  key itself when the name is empty or \<open>LongFast\<close>), of 16, 24 or 32 bytes, with the
  nonce built from the packet. If no earlier entry of the ring ends its pass with a
  \<open>Data\<close>, \<open>_decrypt_packet\<close> returns \<open>True\<close> and the packet with \<open>decoded\<close> equal to \<open>d\<close> and
  \<open>encrypted\<close> cleared. The nonce is the 8 little-endian bytes of the packet id, then the
  4 little-endian bytes of the sender address, then 4 zero bytes.
\<close>

theorem decrypt_roundtrip:
  assumes parse: "parse_data P pt = Some d" and pn: "portnum d \<noteq> 0" and ne: "pt \<noteq> []"
    and key: "aes_key_ok (effective_key P base_key cn)"
    and enc: "encrypted p = Some (ctr_crypt P (effective_key P base_key cn) (make_nonce p) pt)"
    and earlier: "\<forall>e\<in>set ks1.
        try_key P p (ctr_crypt P (effective_key P base_key cn) (make_nonce p) pt) cn (snd e) = None"
  shows "decrypt_packet P (ks1 @ (key_name, base_key) # ks2) st p cn =
           (True, st\<lparr>decrypted := decrypted st + 1\<rparr>,
            p\<lparr>decoded := Some d, encrypted := None\<rparr>) \<and>
         make_nonce p =
           map (\<lambda>i. ucast (drop_bit (8 * i) (packet_id p))) [0..<8] @
           map (\<lambda>i. ucast (drop_bit (8 * i) (from_id p))) [0..<4] @ [0, 0, 0, 0]"
proof -
  let ?ct = "ctr_crypt P (effective_key P base_key cn) (make_nonce p) pt"
  have ct_ne: "?ct \<noteq> []"
    using ne ctr_crypt_length [of P "effective_key P base_key cn" "make_nonce p" pt]
    by (metis length_0_conv)
  have tk: "try_key P p ?ct cn base_key = Some d"
    using key parse pn by (simp add: try_key_eq ctr_crypt_involution)
  have "decrypt_packet P (ks1 @ (key_name, base_key) # ks2) st p cn =
          decrypt_loop P st p ?ct cn ((key_name, base_key) # ks2)"
    using enc ct_ne earlier by (simp add: decrypt_packet_loop decrypt_loop_skip)
  then show ?thesis
    using tk make_nonce_layout by simp
qed

theorem decrypt_roundtrip_witness:
  "decrypt_packet (stub_externals []) test_ring init_stats
       (test_packet None
          (Some (ctr_crypt (stub_externals []) DEFAULT_KEY
                   (make_nonce (test_packet None None)) test_plain))) ''LongFast''
     = (True, init_stats\<lparr>decrypted := 1\<rparr>, test_packet (Some test_decoded) None) \<and>
   make_nonce (test_packet None None)
     = [64, 226, 1, 0, 0, 0, 0, 0, 120, 86, 52, 18, 0, 0, 0, 0]"
proof -
  let ?P = "stub_externals []"
  let ?p = "test_packet None (Some test_cipher)"
  have pn: "portnum test_decoded \<noteq> 0"
    by (simp add: test_decoded_def)
  have ne: "test_plain \<noteq> []"
    by (simp add: test_plain_def)
  have key: "aes_key_ok (effective_key ?P DEFAULT_KEY ''LongFast'')"
    by (simp add: longfast_key key_lengths)
  have enc: "encrypted ?p = Some (ctr_crypt ?P (effective_key ?P DEFAULT_KEY ''LongFast'')
      (make_nonce ?p) test_plain)"
    by (simp add: longfast_key encrypt_test_plain) (simp add: test_packet_def)
  have earlier: "\<forall>e\<in>set [(''custom-0'', short_key), (''custom-1'', zero_port_key)].
      try_key ?P ?p (ctr_crypt ?P (effective_key ?P DEFAULT_KEY ''LongFast'')
        (make_nonce ?p) test_plain) ''LongFast'' (snd e) = None"
    by (simp add: longfast_key encrypt_test_plain try_short_key try_zero_port_key)
  have upd: "?p\<lparr>decoded := Some test_decoded, encrypted := None\<rparr>
      = test_packet (Some test_decoded) None"
    by (simp add: test_packet_def)
  have dec0: "decrypted init_stats = 0"
    by (simp add: init_stats_def)
  from decrypt_roundtrip [OF stub_parse_plain pn ne key enc earlier,
      of "''default''" "[(''custom-2'', other_key)]" init_stats]
  have "decrypt_packet ?P test_ring init_stats ?p ''LongFast''
      = (True, init_stats\<lparr>decrypted := 1\<rparr>, test_packet (Some test_decoded) None)"
    using upd dec0 by (simp add: test_ring_def)
  then have "decrypt_packet ?P test_ring init_stats
       (test_packet None
          (Some (ctr_crypt ?P DEFAULT_KEY (make_nonce (test_packet None None)) test_plain)))
       ''LongFast''
      = (True, init_stats\<lparr>decrypted := 1\<rparr>, test_packet (Some test_decoded) None)"
    by (simp add: encrypt_test_plain)
  then show ?thesis
    using test_nonce [of None None] by blast
qed

text \<open>
  C7 as stated fails. The plaintext \<open>test_plain\<close> parses as \<open>test_decoded\<close>, with port
  number 1, and is encrypted under \<open>DEFAULT_KEY\<close> with the nonce of the packet. With the
  ring holding exactly that key but the envelope on the channel \<open>Other\<close>, the loop
  decrypts under the hash of key and channel name instead; and on \<open>LongFast\<close>, with
  another key before it in the ring under which the ciphertext also parses, the loop
  stops at that key. Both times the packet is left with a \<open>Data\<close> other than the
  original.
\<close>

theorem decrypt_roundtrip_counterexample:
  "parse_data (stub_externals []) test_plain = Some test_decoded \<and>
   portnum test_decoded \<noteq> 0 \<and>
   (''default'', DEFAULT_KEY) \<in> set [(''default'', DEFAULT_KEY)] \<and>
   (''default'', DEFAULT_KEY) \<in> set [(''custom-2'', other_key), (''default'', DEFAULT_KEY)] \<and>
   decrypt_packet (stub_externals []) [(''default'', DEFAULT_KEY)] init_stats
       (test_packet None
          (Some (ctr_crypt (stub_externals []) DEFAULT_KEY
                   (make_nonce (test_packet None None)) test_plain))) ''Other''
     = (True, init_stats\<lparr>decrypted := 1\<rparr>,
        test_packet (Some \<lparr>portnum = 115, payload = [58, 27], bitfield = Some 127\<rparr>) None) \<and>
   decrypt_packet (stub_externals []) [(''custom-2'', other_key), (''default'', DEFAULT_KEY)]
       init_stats
       (test_packet None
          (Some (ctr_crypt (stub_externals []) DEFAULT_KEY
                   (make_nonce (test_packet None None)) test_plain))) ''LongFast''
     = (True, init_stats\<lparr>decrypted := 1\<rparr>,
        test_packet (Some \<lparr>portnum = 72, payload = [115, 80], bitfield = Some 56\<rparr>) None) \<and>
   \<lparr>portnum = 115, payload = [58, 27], bitfield = Some 127\<rparr> \<noteq> test_decoded \<and>
   \<lparr>portnum = 72, payload = [115, 80], bitfield = Some 56\<rparr> \<noteq> test_decoded"
proof -
  have enc: "encrypted (test_packet None (Some test_cipher)) = Some test_cipher"
    by (simp add: test_packet_def)
  have ne: "test_cipher \<noteq> []"
    by (simp add: test_cipher_def)
  have a: "decrypt_packet (stub_externals []) [(''default'', DEFAULT_KEY)] init_stats
       (test_packet None (Some test_cipher)) ''Other''
     = (True, init_stats\<lparr>decrypted := 1\<rparr>,
        test_packet (Some \<lparr>portnum = 115, payload = [58, 27], bitfield = Some 127\<rparr>) None)"
    by (simp add: decrypt_packet_loop [OF enc ne] try_default_key_other_channel)
      (simp add: test_packet_def init_stats_def)
  have b: "decrypt_packet (stub_externals []) [(''custom-2'', other_key), (''default'', DEFAULT_KEY)]
       init_stats (test_packet None (Some test_cipher)) ''LongFast''
     = (True, init_stats\<lparr>decrypted := 1\<rparr>,
        test_packet (Some \<lparr>portnum = 72, payload = [115, 80], bitfield = Some 56\<rparr>) None)"
    by (simp add: decrypt_packet_loop [OF enc ne] try_other_key)
      (simp add: test_packet_def init_stats_def)
  have c: "\<lparr>portnum = 115, payload = [58, 27], bitfield = Some 127\<rparr> \<noteq> test_decoded"
    "\<lparr>portnum = 72, payload = [115, 80], bitfield = Some 56\<rparr> \<noteq> test_decoded"
    "portnum test_decoded \<noteq> 0"
    by (simp_all add: test_decoded_def)
  from a b c show ?thesis
    by (simp add: encrypt_test_plain stub_parse_plain)
qed

section \<open>Topic rewrite: first occurrence\<close>

lemma replace_first_prefix: "replace_first old new (old @ b) = new @ b"
proof (cases "old @ b")
  case Nil
  then show ?thesis by simp
next
  case (Cons c cs)
  then have t: "take (length old) (c # cs) = old" and d: "drop (length old) (c # cs) = b"
    by (metis append_eq_conv_conj)+
  show ?thesis
    unfolding Cons by (simp add: t d)
qed

lemma replace_first_not_prefix:
  "\<not> prefix old (c # cs) \<Longrightarrow> replace_first old new (c # cs) = c # replace_first old new cs"
proof -
  assume np: "\<not> prefix old (c # cs)"
  have "take (length old) (c # cs) \<noteq> old"
  proof
    assume "take (length old) (c # cs) = old"
    then have "c # cs = old @ drop (length old) (c # cs)"
      by (metis append_take_drop_id)
    then have "prefix old (c # cs)"
      by (metis prefixI)
    with np show False by blast
  qed
  then show ?thesis by simp
qed

lemma replace_first_occurrence:
  "(\<And>a' b'. a @ old @ b = a' @ old @ b' \<Longrightarrow> length a \<le> length a') \<Longrightarrow>
   replace_first old new (a @ old @ b) = a @ new @ b"
proof (induction a)
  case Nil
  show ?case by (simp add: replace_first_prefix)
next
  case (Cons x a)
  have np: "\<not> prefix old (x # (a @ old @ b))"
  proof
    assume "prefix old (x # (a @ old @ b))"
    then obtain r where "x # (a @ old @ b) = old @ r"
      by (auto simp: prefix_def)
    then have "(x # a) @ old @ b = [] @ old @ r"
      by simp
    from Cons.prems [OF this] show False by simp
  qed
  have "replace_first old new (a @ old @ b) = a @ new @ b"
  proof (rule Cons.IH)
    fix a' b'
    assume "a @ old @ b = a' @ old @ b'"
    then have "(x # a) @ old @ b = (x # a') @ old @ b'" by simp
    from Cons.prems [OF this] show "length a \<le> length a'" by simp
  qed
  moreover have "replace_first old new (x # (a @ old @ b)) = x # replace_first old new (a @ old @ b)"
    using np by (rule replace_first_not_prefix)
  ultimately show ?case by simp
qed

lemma replace_first_absent:
  "\<not> sublist old s \<Longrightarrow> replace_first old new s = s"
proof (induction s)
  case Nil
  have "sublist [] ([]::string)"
    by (rule sublist_order.order_refl)
  with Nil.prems have "old \<noteq> []"
    by (rule_tac notI) (simp only: not_True_eq_False)
  then show ?case
    by (simp only: replace_first.simps if_False)
next
  case (Cons c cs)
  have np: "\<not> prefix old (c # cs)"
    using Cons.prems prefix_imp_sublist [of old "c # cs"] by (rule_tac notI) (simp only: simp_thms)
  have step: "replace_first old new (c # cs) = c # replace_first old new cs"
    using np by (rule replace_first_not_prefix)
  have "\<not> sublist old cs"
  proof
    assume "sublist old cs"
    then have "sublist old (c # cs)"
      by (simp only: sublist_Cons_right simp_thms)
    with Cons.prems show False by (simp only: simp_thms)
  qed
  then have "replace_first old new cs = cs"
    by (rule Cons.IH)
  with step show ?case by (simp only:)
qed

lemma rstrip_eval:
  "rstrip ''/#'' ''msh/US/NY/#'' = ''msh/US/NY''"
  "rstrip ''/#'' ''filtered/msh/US/NY'' = ''filtered/msh/US/NY''"
  "rstrip ''/#'' ''$share/g/g/#'' = ''$share/g/g''"
  "rstrip ''/#'' ''out'' = ''out''"
  by (simp_all add: rstrip_def)

lemma rewrite_example:
  "rewrite_topic ''msh/US/NY/2/e/LongFast/!12345678'' ''msh/US/NY/#'' ''filtered/msh/US/NY''
     = ''filtered/msh/US/NY/2/e/LongFast/!12345678''"
  by (simp add: rewrite_topic_def rstrip_eval)

lemma rewrite_inner:
  "rewrite_topic ''x/msh/US/NY/2'' ''msh/US/NY/#'' ''filtered/msh/US/NY''
     = ''x/filtered/msh/US/NY/2''"
  by (simp add: rewrite_topic_def rstrip_eval)

lemma rewrite_shared:
  "rewrite_topic ''g/$share/g/g/x'' ''$share/g/g/#'' ''out'' = ''g/out/x''"
  by (simp add: rewrite_topic_def rstrip_eval)

lemma inner_minimal:
  "\<forall>a' b'. ''x/msh/US/NY/2'' = a' @ ''msh/US/NY'' @ b' \<longrightarrow> length ''x/'' \<le> length a'"
proof (intro allI impI)
  fix a' b' :: string
  assume eq: "''x/msh/US/NY/2'' = a' @ ''msh/US/NY'' @ b'"
  show "length ''x/'' \<le> length a'"
  proof (cases a')
    case Nil
    with eq show ?thesis by simp
  next
    case (Cons c r)
    show ?thesis
    proof (cases r)
      case Nil
      with Cons eq show ?thesis by simp
    next
      case (Cons c' r')
      with \<open>a' = c # r\<close> show ?thesis by simp
    qed
  qed
qed

lemma other_topic_absent: "\<not> sublist ''msh/US/NY'' ''other/topic''"
proof
  assume "sublist ''msh/US/NY'' ''other/topic''"
  then have "set ''msh/US/NY'' \<subseteq> set ''other/topic''"
    by (rule set_mono_sublist)
  then show False by simp
qed

text \<open>
  C8, amended. With both prefixes stripped of their trailing \<open>/\<close> and \<open>#\<close> characters, the
  rewrite replaces the leftmost occurrence of the inbound prefix in the topic by the
  outbound prefix and keeps what stands before and after it; when the inbound prefix
  is a prefix of the topic this is the outbound prefix followed by the rest of the
  topic, as for \<open>msh/US/NY/2/e/LongFast/!12345678\<close>; and a topic in which the inbound
  prefix does not occur at all is returned unchanged.
\<close>

theorem rewrite_topic_first_occurrence:
  "(topic = a @ rstrip ''/#'' inp @ b \<and>
      (\<forall>a' b'. topic = a' @ rstrip ''/#'' inp @ b' \<longrightarrow> length a \<le> length a') \<longrightarrow>
      rewrite_topic topic inp outp = a @ rstrip ''/#'' outp @ b) \<and>
   (prefix (rstrip ''/#'' inp) topic \<longrightarrow>
      rewrite_topic topic inp outp
        = rstrip ''/#'' outp @ drop (length (rstrip ''/#'' inp)) topic) \<and>
   (\<not> sublist (rstrip ''/#'' inp) topic \<longrightarrow> rewrite_topic topic inp outp = topic) \<and>
   rewrite_topic ''msh/US/NY/2/e/LongFast/!12345678'' ''msh/US/NY/#'' ''filtered/msh/US/NY''
     = ''filtered/msh/US/NY/2/e/LongFast/!12345678''"
proof -
  have first: "topic = a @ rstrip ''/#'' inp @ b \<and>
      (\<forall>a' b'. topic = a' @ rstrip ''/#'' inp @ b' \<longrightarrow> length a \<le> length a') \<longrightarrow>
      rewrite_topic topic inp outp = a @ rstrip ''/#'' outp @ b"
  proof
    assume h: "topic = a @ rstrip ''/#'' inp @ b \<and>
      (\<forall>a' b'. topic = a' @ rstrip ''/#'' inp @ b' \<longrightarrow> length a \<le> length a')"
    then have "\<And>a' b'. a @ rstrip ''/#'' inp @ b = a' @ rstrip ''/#'' inp @ b'
        \<Longrightarrow> length a \<le> length a'"
      by blast
    then have "replace_first (rstrip ''/#'' inp) (rstrip ''/#'' outp) (a @ rstrip ''/#'' inp @ b)
        = a @ rstrip ''/#'' outp @ b"
      by (rule replace_first_occurrence)
    with h show "rewrite_topic topic inp outp = a @ rstrip ''/#'' outp @ b"
      by (simp only: rewrite_topic_def)
  qed
  have pre: "prefix (rstrip ''/#'' inp) topic \<longrightarrow>
      rewrite_topic topic inp outp
        = rstrip ''/#'' outp @ drop (length (rstrip ''/#'' inp)) topic"
  proof
    assume "prefix (rstrip ''/#'' inp) topic"
    then obtain r where r: "topic = rstrip ''/#'' inp @ r"
      by (auto simp: prefix_def)
    then have "drop (length (rstrip ''/#'' inp)) topic = r"
      by simp
    with r show "rewrite_topic topic inp outp
        = rstrip ''/#'' outp @ drop (length (rstrip ''/#'' inp)) topic"
      by (simp only: rewrite_topic_def replace_first_prefix)
  qed
  have absent: "\<not> sublist (rstrip ''/#'' inp) topic \<longrightarrow> rewrite_topic topic inp outp = topic"
    unfolding rewrite_topic_def by (rule impI) (rule replace_first_absent)
  from first pre absent rewrite_example show ?thesis
    by blast
qed

theorem rewrite_topic_first_occurrence_witness:
  "rewrite_topic ''x/msh/US/NY/2'' ''msh/US/NY/#'' ''filtered/msh/US/NY''
     = ''x/filtered/msh/US/NY/2'' \<and>
   rewrite_topic ''msh/US/NY/2/e'' ''msh/US/NY/#'' ''filtered/msh/US/NY''
     = ''filtered/msh/US/NY/2/e'' \<and>
   rewrite_topic ''other/topic'' ''msh/US/NY/#'' ''filtered/msh/US/NY'' = ''other/topic''"
proof -
  have h1: "''x/msh/US/NY/2'' = ''x/'' @ rstrip ''/#'' ''msh/US/NY/#'' @ ''/2'' \<and>
      (\<forall>a' b'. ''x/msh/US/NY/2'' = a' @ rstrip ''/#'' ''msh/US/NY/#'' @ b'
         \<longrightarrow> length ''x/'' \<le> length a')"
    using inner_minimal by (simp add: rstrip_eval)
  have h2: "prefix (rstrip ''/#'' ''msh/US/NY/#'') ''msh/US/NY/2/e''"
    by (simp add: rstrip_eval)
  have h3: "\<not> sublist (rstrip ''/#'' ''msh/US/NY/#'') ''other/topic''"
    using other_topic_absent by (simp add: rstrip_eval)
  from h1 rewrite_topic_first_occurrence
    [of "''x/msh/US/NY/2''" "''x/''" "''msh/US/NY/#''" "''/2''" "''filtered/msh/US/NY''"]
  have c1: "rewrite_topic ''x/msh/US/NY/2'' ''msh/US/NY/#'' ''filtered/msh/US/NY''
      = ''x/'' @ rstrip ''/#'' ''filtered/msh/US/NY'' @ ''/2''"
    by blast
  from h2 rewrite_topic_first_occurrence
    [of "''msh/US/NY/2/e''" "[]" "''msh/US/NY/#''" "[]" "''filtered/msh/US/NY''"]
  have c2: "rewrite_topic ''msh/US/NY/2/e'' ''msh/US/NY/#'' ''filtered/msh/US/NY''
      = rstrip ''/#'' ''filtered/msh/US/NY''
          @ drop (length (rstrip ''/#'' ''msh/US/NY/#'')) ''msh/US/NY/2/e''"
    by blast
  from h3 rewrite_topic_first_occurrence
    [of "''other/topic''" "[]" "''msh/US/NY/#''" "[]" "''filtered/msh/US/NY''"]
  have c3: "rewrite_topic ''other/topic'' ''msh/US/NY/#'' ''filtered/msh/US/NY'' = ''other/topic''"
    by blast
  from c1 c2 c3 show ?thesis
    by (simp add: rstrip_eval)
qed

text \<open>
  C8 as stated fails: the stripped inbound prefix need not be a prefix of the topic for
  the topic to change. \<open>str.replace\<close> finds it further inside, in \<open>x/msh/US/NY/2\<close>, and
  in \<open>g/$share/g/g/x\<close>, a topic that the shared subscription \<open>$share/g/g/#\<close> matches.
\<close>

theorem rewrite_topic_counterexample:
  "\<not> prefix (rstrip ''/#'' ''msh/US/NY/#'') ''x/msh/US/NY/2'' \<and>
   rewrite_topic ''x/msh/US/NY/2'' ''msh/US/NY/#'' ''filtered/msh/US/NY''
     \<noteq> ''x/msh/US/NY/2'' \<and>
   \<not> prefix (rstrip ''/#'' ''$share/g/g/#'') ''g/$share/g/g/x'' \<and>
   rewrite_topic ''g/$share/g/g/x'' ''$share/g/g/#'' ''out'' \<noteq> ''g/$share/g/g/x''"
  by (simp add: rewrite_inner rewrite_shared rstrip_eval)

section \<open>The handler: paths and counters\<close>

lemma on_message_parse_failure:
  "parse_envelope P (msg_payload msg) = None \<Longrightarrow>
   on_message P self msg = (self\<lparr>stats := (stats self)\<lparr>total := total (stats self) + 1\<rparr>\<rparr>, [])"
  by (simp add: on_message_def)

lemma on_message_no_keys:
  "parse_envelope P (msg_payload msg) = Some env \<Longrightarrow>
   decoded (envelope_packet env) = None \<Longrightarrow>
   encrypted (envelope_packet env) = Some ct \<Longrightarrow>
   keys self = [] \<Longrightarrow>
   on_message P self msg =
     (self\<lparr>stats := (stats self)\<lparr>total := total (stats self) + 1,
         rejected_encrypted := rejected_encrypted (stats self) + 1\<rparr>\<rparr>, [])"
  by (simp add: on_message_def check_ok_to_mqtt_def Let_def)

lemma on_message_publish_raises:
  assumes "parse_envelope P (msg_payload msg) = Some env"
    and "decoded (envelope_packet env) = None"
    and "encrypted (envelope_packet env) \<noteq> None"
    and "keys self \<noteq> []"
    and "decrypt_packet P (keys self) ((stats self)\<lparr>total := total (stats self) + 1\<rparr>)
           (envelope_packet env) (channel_id env) = (True, st', p')"
    and "decoded p' = Some d" and "bitfield d = Some b" and "bit b 0"
    and "publish_raises P (rewrite_topic (msg_topic msg) (input_topic self) (output_topic self))
           (msg_payload msg)"
  shows "on_message P self msg = (self\<lparr>stats := st'\<lparr>forwarded := forwarded st' + 1\<rparr>\<rparr>, [])"
proof -
  have cn: "(if channel_id env \<noteq> [] then channel_id env else []) = channel_id env"
    by simp
  have chk: "check_ok_to_mqtt st' (env\<lparr>envelope_packet := p'\<rparr>) p' = (True, st')"
    using assms(6,7,8) by (simp add: check_ok_to_mqtt_def and_1_bit0 Let_def)
  show ?thesis
    using assms(1,2,3,4,5,9) chk by (simp add: on_message_def Let_def cn)
qed

lemma decrypt_loop_counters:
  "decrypt_loop P st p ct cn ks = (ok, st', p') \<Longrightarrow>
   total st' = total st \<and> forwarded st' = forwarded st \<and>
   rejected_encrypted st' = rejected_encrypted st \<and>
   rejected_no_bitfield st' = rejected_no_bitfield st \<and>
   rejected_bitfield_disabled st' = rejected_bitfield_disabled st"
  by (induction ks) (auto split: option.splits)

lemma decrypt_packet_counters:
  "decrypt_packet P ks st p cn = (ok, st', p') \<Longrightarrow>
   total st' = total st \<and> forwarded st' = forwarded st \<and>
   rejected_encrypted st' = rejected_encrypted st \<and>
   rejected_no_bitfield st' = rejected_no_bitfield st \<and>
   rejected_bitfield_disabled st' = rejected_bitfield_disabled st"
  by (auto simp: decrypt_packet_def split: option.splits if_splits
      dest: decrypt_loop_counters)

lemma outcome_step_same:
  "forwarded s' = forwarded s \<Longrightarrow> rejected_encrypted s' = rejected_encrypted s \<Longrightarrow>
   rejected_no_bitfield s' = rejected_no_bitfield s \<Longrightarrow>
   rejected_bitfield_disabled s' = rejected_bitfield_disabled s \<Longrightarrow> outcome_step s s'"
  unfolding outcome_step_def by blast

lemma outcome_step_forwarded:
  "forwarded s' = forwarded s + 1 \<Longrightarrow> rejected_encrypted s' = rejected_encrypted s \<Longrightarrow>
   rejected_no_bitfield s' = rejected_no_bitfield s \<Longrightarrow>
   rejected_bitfield_disabled s' = rejected_bitfield_disabled s \<Longrightarrow> outcome_step s s'"
  unfolding outcome_step_def by blast

lemma outcome_step_encrypted:
  "forwarded s' = forwarded s \<Longrightarrow> rejected_encrypted s' = rejected_encrypted s + 1 \<Longrightarrow>
   rejected_no_bitfield s' = rejected_no_bitfield s \<Longrightarrow>
   rejected_bitfield_disabled s' = rejected_bitfield_disabled s \<Longrightarrow> outcome_step s s'"
  unfolding outcome_step_def by blast

lemma outcome_step_no_bitfield:
  "forwarded s' = forwarded s \<Longrightarrow> rejected_encrypted s' = rejected_encrypted s \<Longrightarrow>
   rejected_no_bitfield s' = rejected_no_bitfield s + 1 \<Longrightarrow>
   rejected_bitfield_disabled s' = rejected_bitfield_disabled s \<Longrightarrow> outcome_step s s'"
  unfolding outcome_step_def by blast

lemma outcome_step_disabled:
  "forwarded s' = forwarded s \<Longrightarrow> rejected_encrypted s' = rejected_encrypted s \<Longrightarrow>
   rejected_no_bitfield s' = rejected_no_bitfield s \<Longrightarrow>
   rejected_bitfield_disabled s' = rejected_bitfield_disabled s + 1 \<Longrightarrow> outcome_step s s'"
  unfolding outcome_step_def by blast

lemma check_cases:
  "check_ok_to_mqtt st env p = (True, st) \<or>
   check_ok_to_mqtt st env p = (False, st\<lparr>rejected_encrypted := rejected_encrypted st + 1\<rparr>) \<or>
   check_ok_to_mqtt st env p = (False, st\<lparr>rejected_no_bitfield := rejected_no_bitfield st + 1\<rparr>) \<or>
   check_ok_to_mqtt st env p =
     (False, st\<lparr>rejected_bitfield_disabled := rejected_bitfield_disabled st + 1\<rparr>)"
  by (simp add: check_ok_to_mqtt_def Let_def split: option.splits)

lemma on_message_decoded_at_arrival:
  "parse_envelope P (msg_payload msg) = Some env \<Longrightarrow> decoded (envelope_packet env) \<noteq> None \<Longrightarrow>
   on_message P self msg = (self\<lparr>stats := (stats self)\<lparr>total := total (stats self) + 1\<rparr>\<rparr>, [])"
  by (simp add: on_message_def Let_def)

lemma on_message_shape:
  assumes pe: "parse_envelope P (msg_payload msg) = Some env"
    and dn: "decoded (envelope_packet env) = None"
  shows "\<exists>st2 p2. total st2 = total (stats self) + 1 \<and> same_outcomes (stats self) st2 \<and>
      on_message P self msg =
        (case check_ok_to_mqtt st2 (env\<lparr>envelope_packet := p2\<rparr>) p2 of
           (ok, st3) \<Rightarrow>
             if ok then
               (self\<lparr>stats := st3\<lparr>forwarded := forwarded st3 + 1\<rparr>\<rparr>,
                if publish_raises P
                     (rewrite_topic (msg_topic msg) (input_topic self) (output_topic self))
                     (msg_payload msg)
                then []
                else [(rewrite_topic (msg_topic msg) (input_topic self) (output_topic self),
                       msg_payload msg)])
             else (self\<lparr>stats := st3\<rparr>, []))"
proof (cases "encrypted (envelope_packet env) \<noteq> None \<and> keys self \<noteq> []")
  case True
  obtain ok' st' p' where d: "decrypt_packet P (keys self)
      ((stats self)\<lparr>total := total (stats self) + 1\<rparr>) (envelope_packet env) (channel_id env)
      = (ok', st', p')"
    by (metis prod_cases3)
  have cn: "(if channel_id env \<noteq> [] then channel_id env else []) = channel_id env"
    by simp
  from decrypt_packet_counters [OF d]
  have c: "total st' = total (stats self) + 1 \<and> same_outcomes (stats self) st'"
    by (simp add: same_outcomes_def)
  have "on_message P self msg =
        (case check_ok_to_mqtt st' (env\<lparr>envelope_packet := p'\<rparr>) p' of
           (ok, st3) \<Rightarrow>
             if ok then
               (self\<lparr>stats := st3\<lparr>forwarded := forwarded st3 + 1\<rparr>\<rparr>,
                if publish_raises P
                     (rewrite_topic (msg_topic msg) (input_topic self) (output_topic self))
                     (msg_payload msg)
                then []
                else [(rewrite_topic (msg_topic msg) (input_topic self) (output_topic self),
                       msg_payload msg)])
             else (self\<lparr>stats := st3\<rparr>, []))"
    using pe dn True d by (simp add: on_message_def Let_def cn split: prod.splits)
  with c show ?thesis by blast
next
  case False
  have c: "total ((stats self)\<lparr>total := total (stats self) + 1\<rparr>) = total (stats self) + 1 \<and>
      same_outcomes (stats self) ((stats self)\<lparr>total := total (stats self) + 1\<rparr>)"
    by (simp add: same_outcomes_def)
  have "on_message P self msg =
        (case check_ok_to_mqtt ((stats self)\<lparr>total := total (stats self) + 1\<rparr>)
                (env\<lparr>envelope_packet := envelope_packet env\<rparr>) (envelope_packet env) of
           (ok, st3) \<Rightarrow>
             if ok then
               (self\<lparr>stats := st3\<lparr>forwarded := forwarded st3 + 1\<rparr>\<rparr>,
                if publish_raises P
                     (rewrite_topic (msg_topic msg) (input_topic self) (output_topic self))
                     (msg_payload msg)
                then []
                else [(rewrite_topic (msg_topic msg) (input_topic self) (output_topic self),
                       msg_payload msg)])
             else (self\<lparr>stats := st3\<rparr>, []))"
    using pe dn False by (auto simp: on_message_def Let_def split: prod.splits)
  with c show ?thesis by blast
qed

lemma on_message_counters:
  "total (stats (fst (on_message P self msg))) = total (stats self) + 1 \<and>
   outcome_step (stats self) (stats (fst (on_message P self msg)))"
proof (cases "parse_envelope P (msg_payload msg)")
  case None
  then have "stats (fst (on_message P self msg)) = (stats self)\<lparr>total := total (stats self) + 1\<rparr>"
    by (simp add: on_message_parse_failure)
  then show ?thesis
    by (simp add: outcome_step_same)
next
  case (Some env)
  show ?thesis
  proof (cases "decoded (envelope_packet env) = None")
    case False
    with Some have "stats (fst (on_message P self msg))
        = (stats self)\<lparr>total := total (stats self) + 1\<rparr>"
      by (simp add: on_message_decoded_at_arrival)
    then show ?thesis
      by (simp add: outcome_step_same)
  next
    case True
    from on_message_shape [OF Some True, of self]
    obtain st2 p2 where tot: "total st2 = total (stats self) + 1"
      and same: "same_outcomes (stats self) st2"
      and om: "on_message P self msg =
        (case check_ok_to_mqtt st2 (env\<lparr>envelope_packet := p2\<rparr>) p2 of
           (ok, st3) \<Rightarrow>
             if ok then
               (self\<lparr>stats := st3\<lparr>forwarded := forwarded st3 + 1\<rparr>\<rparr>,
                if publish_raises P
                     (rewrite_topic (msg_topic msg) (input_topic self) (output_topic self))
                     (msg_payload msg)
                then []
                else [(rewrite_topic (msg_topic msg) (input_topic self) (output_topic self),
                       msg_payload msg)])
             else (self\<lparr>stats := st3\<rparr>, []))"
      by blast
    from same have s: "forwarded st2 = forwarded (stats self)"
      "rejected_encrypted st2 = rejected_encrypted (stats self)"
      "rejected_no_bitfield st2 = rejected_no_bitfield (stats self)"
      "rejected_bitfield_disabled st2 = rejected_bitfield_disabled (stats self)"
      by (simp_all add: same_outcomes_def)
    let ?c = "check_ok_to_mqtt st2 (env\<lparr>envelope_packet := p2\<rparr>) p2"
    from check_cases [of st2 "env\<lparr>envelope_packet := p2\<rparr>" p2]
    consider (fwd) "?c = (True, st2)"
      | (enc) "?c = (False, st2\<lparr>rejected_encrypted := rejected_encrypted st2 + 1\<rparr>)"
      | (nobf) "?c = (False, st2\<lparr>rejected_no_bitfield := rejected_no_bitfield st2 + 1\<rparr>)"
      | (dis) "?c = (False, st2\<lparr>rejected_bitfield_disabled := rejected_bitfield_disabled st2 + 1\<rparr>)"
      by blast
    then show ?thesis
    proof cases
      case fwd
      with om have "stats (fst (on_message P self msg)) = st2\<lparr>forwarded := forwarded st2 + 1\<rparr>"
        by simp
      with tot s show ?thesis
        by (simp add: outcome_step_forwarded)
    next
      case enc
      with om have "stats (fst (on_message P self msg))
          = st2\<lparr>rejected_encrypted := rejected_encrypted st2 + 1\<rparr>"
        by simp
      with tot s show ?thesis
        by (simp add: outcome_step_encrypted)
    next
      case nobf
      with om have "stats (fst (on_message P self msg))
          = st2\<lparr>rejected_no_bitfield := rejected_no_bitfield st2 + 1\<rparr>"
        by simp
      with tot s show ?thesis
        by (simp add: outcome_step_no_bitfield)
    next
      case dis
      with om have "stats (fst (on_message P self msg))
          = st2\<lparr>rejected_bitfield_disabled := rejected_bitfield_disabled st2 + 1\<rparr>"
        by simp
      with tot s show ?thesis
        by (simp add: outcome_step_disabled)
    qed
  qed
qed

lemma one_outcome_forwarded:
  "forwarded s' = forwarded s + 1 \<Longrightarrow> rejected_encrypted s' = rejected_encrypted s \<Longrightarrow>
   rejected_no_bitfield s' = rejected_no_bitfield s \<Longrightarrow>
   rejected_bitfield_disabled s' = rejected_bitfield_disabled s \<Longrightarrow> one_outcome s s'"
  unfolding one_outcome_def by blast

lemma one_outcome_encrypted:
  "forwarded s' = forwarded s \<Longrightarrow> rejected_encrypted s' = rejected_encrypted s + 1 \<Longrightarrow>
   rejected_no_bitfield s' = rejected_no_bitfield s \<Longrightarrow>
   rejected_bitfield_disabled s' = rejected_bitfield_disabled s \<Longrightarrow> one_outcome s s'"
  unfolding one_outcome_def by blast

lemma one_outcome_no_bitfield:
  "forwarded s' = forwarded s \<Longrightarrow> rejected_encrypted s' = rejected_encrypted s \<Longrightarrow>
   rejected_no_bitfield s' = rejected_no_bitfield s + 1 \<Longrightarrow>
   rejected_bitfield_disabled s' = rejected_bitfield_disabled s \<Longrightarrow> one_outcome s s'"
  unfolding one_outcome_def by blast

lemma one_outcome_disabled:
  "forwarded s' = forwarded s \<Longrightarrow> rejected_encrypted s' = rejected_encrypted s \<Longrightarrow>
   rejected_no_bitfield s' = rejected_no_bitfield s \<Longrightarrow>
   rejected_bitfield_disabled s' = rejected_bitfield_disabled s + 1 \<Longrightarrow> one_outcome s s'"
  unfolding one_outcome_def by blast

lemma one_outcome_sum: "one_outcome s s' \<Longrightarrow> outcome_sum s' = outcome_sum s + 1"
  unfolding one_outcome_def outcome_sum_def by linarith

lemma same_outcomes_sum: "same_outcomes s s' \<Longrightarrow> outcome_sum s' = outcome_sum s"
  unfolding same_outcomes_def outcome_sum_def by linarith

lemma on_message_unparsed_outcomes:
  "parse_envelope P (msg_payload msg) = None \<Longrightarrow>
   same_outcomes (stats self) (stats (fst (on_message P self msg)))"
  by (simp add: on_message_parse_failure same_outcomes_def)

lemma on_message_parsed_outcome:
  assumes pe: "parse_envelope P (msg_payload msg) = Some env"
    and dn: "decoded (envelope_packet env) = None"
  shows "one_outcome (stats self) (stats (fst (on_message P self msg)))"
proof -
  from on_message_shape [OF pe dn, of self]
  obtain st2 p2 where same: "same_outcomes (stats self) st2"
    and om: "on_message P self msg =
      (case check_ok_to_mqtt st2 (env\<lparr>envelope_packet := p2\<rparr>) p2 of
         (ok, st3) \<Rightarrow>
           if ok then
             (self\<lparr>stats := st3\<lparr>forwarded := forwarded st3 + 1\<rparr>\<rparr>,
              if publish_raises P
                   (rewrite_topic (msg_topic msg) (input_topic self) (output_topic self))
                   (msg_payload msg)
              then []
              else [(rewrite_topic (msg_topic msg) (input_topic self) (output_topic self),
                     msg_payload msg)])
           else (self\<lparr>stats := st3\<rparr>, []))"
    by blast
  from same have s: "forwarded st2 = forwarded (stats self)"
    "rejected_encrypted st2 = rejected_encrypted (stats self)"
    "rejected_no_bitfield st2 = rejected_no_bitfield (stats self)"
    "rejected_bitfield_disabled st2 = rejected_bitfield_disabled (stats self)"
    by (simp_all add: same_outcomes_def)
  let ?c = "check_ok_to_mqtt st2 (env\<lparr>envelope_packet := p2\<rparr>) p2"
  from check_cases [of st2 "env\<lparr>envelope_packet := p2\<rparr>" p2]
  consider (fwd) "?c = (True, st2)"
    | (enc) "?c = (False, st2\<lparr>rejected_encrypted := rejected_encrypted st2 + 1\<rparr>)"
    | (nobf) "?c = (False, st2\<lparr>rejected_no_bitfield := rejected_no_bitfield st2 + 1\<rparr>)"
    | (dis) "?c = (False, st2\<lparr>rejected_bitfield_disabled := rejected_bitfield_disabled st2 + 1\<rparr>)"
    by blast
  then show ?thesis
  proof cases
    case fwd
    with om have "stats (fst (on_message P self msg)) = st2\<lparr>forwarded := forwarded st2 + 1\<rparr>"
      by simp
    with s show ?thesis
      by (simp add: one_outcome_forwarded)
  next
    case enc
    with om have "stats (fst (on_message P self msg))
        = st2\<lparr>rejected_encrypted := rejected_encrypted st2 + 1\<rparr>"
      by simp
    with s show ?thesis
      by (simp add: one_outcome_encrypted)
  next
    case nobf
    with om have "stats (fst (on_message P self msg))
        = st2\<lparr>rejected_no_bitfield := rejected_no_bitfield st2 + 1\<rparr>"
      by simp
    with s show ?thesis
      by (simp add: one_outcome_no_bitfield)
  next
    case dis
    with om have "stats (fst (on_message P self msg))
        = st2\<lparr>rejected_bitfield_disabled := rejected_bitfield_disabled st2 + 1\<rparr>"
      by simp
    with s show ?thesis
      by (simp add: one_outcome_disabled)
  qed
qed

lemma parsed_unparsed_length:
  "length (parsed_msgs P ms) + length (unparsed_msgs P ms) = length ms"
  unfolding parsed_msgs_def unparsed_msgs_def by (induction ms) simp_all

lemma process_exact:
  assumes "\<forall>m\<in>set ms. \<forall>env. parse_envelope P (msg_payload m) = Some env
             \<longrightarrow> decoded (envelope_packet env) = None"
  shows "total (stats (fst (process P self ms))) = total (stats self) + int (length ms) \<and>
         outcome_sum (stats (fst (process P self ms)))
           = outcome_sum (stats self) + int (length (parsed_msgs P ms))"
  using assms
proof (induction ms arbitrary: self)
  case Nil
  show ?case by (simp add: parsed_msgs_def)
next
  case (Cons m ms)
  obtain self1 out1 where o: "on_message P self m = (self1, out1)"
    by (cases "on_message P self m")
  from on_message_counters [of P self m] o
  have t1: "total (stats self1) = total (stats self) + 1"
    by simp
  have p: "fst (process P self (m # ms)) = fst (process P self1 ms)"
    using o by (simp split: prod.splits)
  from Cons.prems have rest: "\<forall>m\<in>set ms. \<forall>env. parse_envelope P (msg_payload m) = Some env
      \<longrightarrow> decoded (envelope_packet env) = None"
    by simp
  note ih = Cons.IH [OF rest, of self1]
  show ?case
  proof (cases "parse_envelope P (msg_payload m)")
    case None
    from same_outcomes_sum [OF on_message_unparsed_outcomes [OF None, of self]] o
    have "outcome_sum (stats self1) = outcome_sum (stats self)"
      by simp
    moreover have "parsed_msgs P (m # ms) = parsed_msgs P ms"
      using None by (simp add: parsed_msgs_def)
    ultimately show ?thesis
      using ih t1 unfolding p by simp
  next
    case (Some env)
    with Cons.prems have dn: "decoded (envelope_packet env) = None"
      by simp
    from one_outcome_sum [OF on_message_parsed_outcome [OF Some dn, of self]] o
    have "outcome_sum (stats self1) = outcome_sum (stats self) + 1"
      by simp
    moreover have "length (parsed_msgs P (m # ms)) = length (parsed_msgs P ms) + 1"
      using Some by (simp add: parsed_msgs_def)
    ultimately show ?thesis
      using ih t1 unfolding p by simp
  qed
qed

section \<open>Evaluation of the handler with the stand-ins\<close>

lemma stub_parse_envelope:
  "parse_envelope (stub_externals test_table) enc_payload
     = Some (test_envelope ''LongFast'' (test_packet None (Some test_cipher)))"
  "parse_envelope (stub_externals test_table) bad_payload = None"
  by (simp_all add: stub_fields test_table_def enc_payload_def bad_payload_def)

lemma test_envelope_fields:
  "envelope_packet (test_envelope cid p) = p" "channel_id (test_envelope cid p) = cid"
  by (simp_all add: test_envelope_def)

lemma test_packet_fields:
  "decoded (test_packet d e) = d" "encrypted (test_packet d e) = e"
  by (simp_all add: test_packet_def)

lemma test_filter_fields:
  "keys (test_filter ks outp) = ks" "stats (test_filter ks outp) = init_stats"
  "input_topic (test_filter ks outp) = ''msh/test/#''" "output_topic (test_filter ks outp) = outp"
  by (simp_all add: test_filter_def)

lemma test_msg_fields:
  "msg_payload (test_msg pl) = pl" "msg_topic (test_msg pl) = ''msh/test/2/e/LongFast/!12345678''"
  by (simp_all add: test_msg_def)

lemma decrypt_default_ring:
  "decrypt_packet (stub_externals t) [(''default'', DEFAULT_KEY)] st
       (test_packet None (Some test_cipher)) ''LongFast''
     = (True, st\<lparr>decrypted := decrypted st + 1\<rparr>, test_packet (Some test_decoded) None)"
proof -
  have enc: "encrypted (test_packet None (Some test_cipher)) = Some test_cipher"
    by (simp add: test_packet_def)
  have ne: "test_cipher \<noteq> []"
    by (simp add: test_cipher_def)
  show ?thesis
    by (simp add: decrypt_packet_loop [OF enc ne] try_default_key) (simp add: test_packet_def)
qed

lemma rewrite_wildcard_output:
  "rewrite_topic ''msh/test/2/e/LongFast/!12345678'' ''msh/test/#'' ''filtered/+''
     = ''filtered/+/2/e/LongFast/!12345678''"
  by (simp add: rewrite_topic_def rstrip_def)

lemma publish_raises_wildcard:
  "publish_raises (stub_externals t) ''filtered/+/2/e/LongFast/!12345678'' pl"
  by (simp add: stub_fields stub_publish_raises_def)

lemma on_message_wildcard_output:
  "on_message (stub_externals test_table) (test_filter [(''default'', DEFAULT_KEY)] ''filtered/+'')
       (test_msg enc_payload)
     = ((test_filter [(''default'', DEFAULT_KEY)] ''filtered/+'')
          \<lparr>stats := init_stats\<lparr>total := 1, decrypted := 1, forwarded := 1\<rparr>\<rparr>, [])"
proof -
  let ?P = "stub_externals test_table"
  let ?F = "test_filter [(''default'', DEFAULT_KEY)] ''filtered/+''"
  let ?env = "test_envelope ''LongFast'' (test_packet None (Some test_cipher))"
  let ?st = "(stats ?F)\<lparr>total := total (stats ?F) + 1\<rparr>"
  have a1: "parse_envelope ?P (msg_payload (test_msg enc_payload)) = Some ?env"
    by (simp add: test_msg_fields stub_parse_envelope)
  have a2: "decoded (envelope_packet ?env) = None"
    by (simp add: test_envelope_fields test_packet_fields)
  have a3: "encrypted (envelope_packet ?env) \<noteq> None"
    by (simp add: test_envelope_fields test_packet_fields)
  have a4: "keys ?F \<noteq> []"
    by (simp add: test_filter_fields)
  have a5: "decrypt_packet ?P (keys ?F) ?st (envelope_packet ?env) (channel_id ?env)
      = (True, ?st\<lparr>decrypted := decrypted ?st + 1\<rparr>, test_packet (Some test_decoded) None)"
    by (simp only: test_filter_fields test_envelope_fields decrypt_default_ring)
  have a6: "decoded (test_packet (Some test_decoded) None) = Some test_decoded"
    by (simp add: test_packet_fields)
  have a7: "bitfield test_decoded = Some 1"
    by (simp add: test_decoded_def)
  have a8: "bit (1::32 word) 0"
    by simp
  have a9: "publish_raises ?P
      (rewrite_topic (msg_topic (test_msg enc_payload)) (input_topic ?F) (output_topic ?F))
      (msg_payload (test_msg enc_payload))"
    by (simp add: test_msg_fields test_filter_fields rewrite_wildcard_output
        publish_raises_wildcard)
  from on_message_publish_raises [OF a1 a2 a3 a4 a5 a6 a7 a8 a9]
  show ?thesis
    by (simp add: test_filter_fields init_stats_def)
qed

section \<open>The handler's counters\<close>

text \<open>
  C2, amended. Every message raises \<open>total\<close> by exactly one. A message whose payload does
  not deserialize changes no outcome counter; a message that deserializes to a packet
  without decoded \<open>Data\<close> raises exactly one of \<open>forwarded\<close>, \<open>rejected_encrypted\<close>,
  \<open>rejected_no_bitfield\<close>, \<open>rejected_bitfield_disabled\<close> by one and leaves the other three
  as they were. Hence, over a sequence of such messages, \<open>total\<close> grows by the number of
  messages and the sum of the outcome counters by the number of messages that
  deserialize; started from the counters of \<open>__init__\<close>, \<open>total\<close> is that sum plus the number
  of messages that did not deserialize. The code keeps no \<open>forwarded_exempt\<close> counter.
  Nothing is stated here about a packet that arrives with decoded \<open>Data\<close>.
\<close>

theorem counters_exact_per_message:
  assumes nd: "\<forall>m\<in>set ms. \<forall>env. parse_envelope P (msg_payload m) = Some env
                 \<longrightarrow> decoded (envelope_packet env) = None"
  shows "total (stats (fst (on_message P self msg))) = total (stats self) + 1 \<and>
    (parse_envelope P (msg_payload msg) = None \<longrightarrow>
       same_outcomes (stats self) (stats (fst (on_message P self msg)))) \<and>
    (\<forall>env. parse_envelope P (msg_payload msg) = Some env \<and> decoded (envelope_packet env) = None
       \<longrightarrow> one_outcome (stats self) (stats (fst (on_message P self msg)))) \<and>
    total (stats (fst (process P self ms))) = total (stats self) + int (length ms) \<and>
    outcome_sum (stats (fst (process P self ms)))
      = outcome_sum (stats self) + int (length (parsed_msgs P ms)) \<and>
    total (stats (fst (process P (self\<lparr>stats := init_stats\<rparr>) ms)))
      = outcome_sum (stats (fst (process P (self\<lparr>stats := init_stats\<rparr>) ms)))
        + int (length (unparsed_msgs P ms))"
proof -
  have z: "outcome_sum (stats (self\<lparr>stats := init_stats\<rparr>)) = 0"
    "total (stats (self\<lparr>stats := init_stats\<rparr>)) = 0"
    by (simp_all add: outcome_sum_def init_stats_def)
  from process_exact [OF nd, of "self\<lparr>stats := init_stats\<rparr>"] z
    parsed_unparsed_length [of P ms]
  have init: "total (stats (fst (process P (self\<lparr>stats := init_stats\<rparr>) ms)))
      = outcome_sum (stats (fst (process P (self\<lparr>stats := init_stats\<rparr>) ms)))
        + int (length (unparsed_msgs P ms))"
    by simp
  from on_message_counters [of P self msg]
  have t: "total (stats (fst (on_message P self msg))) = total (stats self) + 1"
    by blast
  from t init process_exact [OF nd, of self]
    on_message_unparsed_outcomes [of P msg self] on_message_parsed_outcome [of P msg _ self]
  show ?thesis by blast
qed

theorem counters_exact_per_message_witness:
  "total (stats (fst (process (stub_externals test_table)
      (test_filter [(''default'', DEFAULT_KEY)] ''filtered/test'')
      [test_msg bad_payload, test_msg enc_payload]))) = 2 \<and>
   outcome_sum (stats (fst (process (stub_externals test_table)
      (test_filter [(''default'', DEFAULT_KEY)] ''filtered/test'')
      [test_msg bad_payload, test_msg enc_payload]))) = 1 \<and>
   same_outcomes init_stats (stats (fst (on_message (stub_externals test_table)
      (test_filter [(''default'', DEFAULT_KEY)] ''filtered/test'') (test_msg bad_payload)))) \<and>
   one_outcome init_stats (stats (fst (on_message (stub_externals test_table)
      (test_filter [(''default'', DEFAULT_KEY)] ''filtered/test'') (test_msg enc_payload))))"
proof -
  let ?P = "stub_externals test_table"
  let ?F = "test_filter [(''default'', DEFAULT_KEY)] ''filtered/test''"
  let ?ms = "[test_msg bad_payload, test_msg enc_payload]"
  let ?env = "test_envelope ''LongFast'' (test_packet None (Some test_cipher))"
  have nd: "\<forall>m\<in>set ?ms. \<forall>env. parse_envelope ?P (msg_payload m) = Some env
      \<longrightarrow> decoded (envelope_packet env) = None"
    by (simp add: test_msg_fields stub_parse_envelope test_envelope_fields test_packet_fields)
  have bad: "parse_envelope ?P (msg_payload (test_msg bad_payload)) = None"
    by (simp add: test_msg_fields stub_parse_envelope)
  have enc: "parse_envelope ?P (msg_payload (test_msg enc_payload)) = Some ?env \<and>
      decoded (envelope_packet ?env) = None"
    by (simp add: test_msg_fields stub_parse_envelope test_envelope_fields test_packet_fields)
  have n: "length (parsed_msgs ?P ?ms) = 1"
    by (simp add: parsed_msgs_def test_msg_fields stub_parse_envelope)
  have z: "stats ?F = init_stats" "total init_stats = 0" "outcome_sum init_stats = 0"
    by (simp_all add: test_filter_fields outcome_sum_def init_stats_def)
  from counters_exact_per_message [OF nd, of ?F "test_msg bad_payload"] bad z n
  have a: "total (stats (fst (process ?P ?F ?ms))) = 2 \<and>
      outcome_sum (stats (fst (process ?P ?F ?ms))) = 1 \<and>
      same_outcomes init_stats (stats (fst (on_message ?P ?F (test_msg bad_payload))))"
    by simp
  from counters_exact_per_message [OF nd, of ?F "test_msg enc_payload"] enc z
  have b: "one_outcome init_stats (stats (fst (on_message ?P ?F (test_msg enc_payload))))"
    by metis
  from a b show ?thesis by blast
qed

text \<open>
  C2 as stated fails: a message whose payload does not parse is counted in \<open>total\<close> and
  in no outcome counter, so \<open>total\<close> is 1 and the sum of the outcome counters is 0.
\<close>

theorem counters_conservation_counterexample:
  "total (stats (fst (process (stub_externals test_table)
      (test_filter [(''default'', DEFAULT_KEY)] ''filtered/test'') [test_msg bad_payload]))) = 1 \<and>
   outcome_sum (stats (fst (process (stub_externals test_table)
      (test_filter [(''default'', DEFAULT_KEY)] ''filtered/test'') [test_msg bad_payload]))) = 0"
proof -
  have "parse_envelope (stub_externals test_table) (msg_payload (test_msg bad_payload)) = None"
    by (simp add: test_msg_fields stub_parse_envelope)
  from on_message_parse_failure [OF this,
      of "test_filter [(''default'', DEFAULT_KEY)] ''filtered/test''"]
  show ?thesis
    by (simp add: test_filter_fields outcome_sum_def init_stats_def)
qed

section \<open>An empty key ring\<close>

text \<open>
  C9, amended. When a packet arrives encrypted and the key ring is empty, the handler
  does not call \<open>_decrypt_packet\<close>: neither \<open>decryption_failed\<close> nor \<open>decrypted\<close> changes,
  the packet stays encrypted, the admission check rejects it as encrypted
  (\<open>rejected_encrypted\<close> and \<open>total\<close> grow by one) and nothing is published.
\<close>

theorem no_keys_skips_decryption:
  assumes "parse_envelope P (msg_payload msg) = Some env"
    and "decoded (envelope_packet env) = None"
    and "encrypted (envelope_packet env) = Some ct"
    and "keys self = []"
  shows "on_message P self msg =
           (self\<lparr>stats := (stats self)\<lparr>total := total (stats self) + 1,
               rejected_encrypted := rejected_encrypted (stats self) + 1\<rparr>\<rparr>, [])"
  using assms by (rule on_message_no_keys)

theorem no_keys_skips_decryption_witness:
  "on_message (stub_externals test_table) (test_filter [] ''filtered/test'') (test_msg enc_payload)
     = ((test_filter [] ''filtered/test'')
          \<lparr>stats := init_stats\<lparr>total := 1, rejected_encrypted := 1\<rparr>\<rparr>, [])"
proof -
  let ?env = "test_envelope ''LongFast'' (test_packet None (Some test_cipher))"
  have a1: "parse_envelope (stub_externals test_table) (msg_payload (test_msg enc_payload))
      = Some ?env"
    by (simp add: test_msg_fields stub_parse_envelope)
  have a2: "decoded (envelope_packet ?env) = None"
    by (simp add: test_envelope_fields test_packet_fields)
  have a3: "encrypted (envelope_packet ?env) = Some test_cipher"
    by (simp add: test_envelope_fields test_packet_fields)
  have a4: "keys (test_filter [] ''filtered/test'') = []"
    by (simp add: test_filter_fields)
  from no_keys_skips_decryption [OF a1 a2 a3 a4]
  show ?thesis
    by (simp add: test_filter_fields init_stats_def)
qed

text \<open>
  C9 as stated fails: with an empty ring and a packet with the non-empty ciphertext
  \<open>test_cipher\<close>, \<open>decryption_failed\<close> is 0 before the message and 0 after it.
\<close>

theorem no_keys_counterexample:
  "keys (test_filter [] ''filtered/test'') = [] \<and>
   parse_envelope (stub_externals test_table) (msg_payload (test_msg enc_payload))
     = Some (test_envelope ''LongFast'' (test_packet None (Some test_cipher))) \<and>
   test_cipher \<noteq> [] \<and>
   decryption_failed (stats (test_filter [] ''filtered/test'')) = 0 \<and>
   decryption_failed (stats (fst (on_message (stub_externals test_table)
      (test_filter [] ''filtered/test'') (test_msg enc_payload)))) = 0"
proof -
  let ?env = "test_envelope ''LongFast'' (test_packet None (Some test_cipher))"
  have a1: "parse_envelope (stub_externals test_table) (msg_payload (test_msg enc_payload))
      = Some ?env"
    by (simp add: test_msg_fields stub_parse_envelope)
  have a2: "decoded (envelope_packet ?env) = None"
    by (simp add: test_envelope_fields test_packet_fields)
  have a3: "encrypted (envelope_packet ?env) = Some test_cipher"
    by (simp add: test_envelope_fields test_packet_fields)
  have a4: "keys (test_filter [] ''filtered/test'') = []"
    by (simp add: test_filter_fields)
  have ne: "test_cipher \<noteq> []"
    by (simp add: test_cipher_def)
  from on_message_no_keys [OF a1 a2 a3 a4] a1 a4 ne
  show ?thesis
    by (simp add: test_filter_fields init_stats_def)
qed

lemma wildcard_delivery:
  "parse_envelope (stub_externals test_table) (msg_payload (test_msg enc_payload))
     = Some (test_envelope ''LongFast'' (test_packet None (Some test_cipher))) \<and>
   decoded (envelope_packet (test_envelope ''LongFast'' (test_packet None (Some test_cipher))))
     = None \<and>
   encrypted (envelope_packet (test_envelope ''LongFast'' (test_packet None (Some test_cipher))))
     \<noteq> None \<and>
   keys (test_filter [(''default'', DEFAULT_KEY)] ''filtered/+'') \<noteq> [] \<and>
   decrypt_packet (stub_externals test_table)
       (keys (test_filter [(''default'', DEFAULT_KEY)] ''filtered/+''))
       ((stats (test_filter [(''default'', DEFAULT_KEY)] ''filtered/+''))
          \<lparr>total := total (stats (test_filter [(''default'', DEFAULT_KEY)] ''filtered/+'')) + 1\<rparr>)
       (envelope_packet (test_envelope ''LongFast'' (test_packet None (Some test_cipher))))
       (channel_id (test_envelope ''LongFast'' (test_packet None (Some test_cipher))))
     = (True, init_stats\<lparr>total := 1, decrypted := 1\<rparr>, test_packet (Some test_decoded) None) \<and>
   decoded (test_packet (Some test_decoded) None) = Some test_decoded \<and>
   bitfield test_decoded = Some 1 \<and> bit (1::32 word) 0 \<and>
   publish_raises (stub_externals test_table)
     (rewrite_topic (msg_topic (test_msg enc_payload))
        (input_topic (test_filter [(''default'', DEFAULT_KEY)] ''filtered/+''))
        (output_topic (test_filter [(''default'', DEFAULT_KEY)] ''filtered/+'')))
     (msg_payload (test_msg enc_payload))"
  by (simp add: test_msg_fields stub_parse_envelope test_envelope_fields test_packet_fields
      test_filter_fields decrypt_default_ring rewrite_wildcard_output publish_raises_wildcard
      test_decoded_def init_stats_def)

section \<open>Exceptions inside the handler\<close>

text \<open>
  C10, amended. The handler returns for every message, with \<open>total\<close> one higher. If the
  envelope does not parse, no other counter changes and nothing is published. If the
  packet is decrypted and admitted and \<open>client.publish\<close> then raises, the exception is
  caught as well and nothing is published, but \<open>forwarded\<close> has been incremented before
  the call. So \<open>total\<close> can exceed the sum of the outcome counters.
\<close>

theorem on_message_exception_paths:
  "total (stats (fst (on_message P self msg))) = total (stats self) + 1 \<and>
   (parse_envelope P (msg_payload msg) = None \<longrightarrow>
      on_message P self msg
        = (self\<lparr>stats := (stats self)\<lparr>total := total (stats self) + 1\<rparr>\<rparr>, [])) \<and>
   (\<forall>env st' p' d b.
      parse_envelope P (msg_payload msg) = Some env \<and>
      decoded (envelope_packet env) = None \<and>
      encrypted (envelope_packet env) \<noteq> None \<and>
      keys self \<noteq> [] \<and>
      decrypt_packet P (keys self) ((stats self)\<lparr>total := total (stats self) + 1\<rparr>)
        (envelope_packet env) (channel_id env) = (True, st', p') \<and>
      decoded p' = Some d \<and> bitfield d = Some b \<and> bit b 0 \<and>
      publish_raises P (rewrite_topic (msg_topic msg) (input_topic self) (output_topic self))
        (msg_payload msg)
      \<longrightarrow> on_message P self msg
            = (self\<lparr>stats := st'\<lparr>forwarded := forwarded st' + 1\<rparr>\<rparr>, []))"
  using on_message_counters [of P self msg] on_message_parse_failure [of P msg self]
    on_message_publish_raises [of P msg _ self]
  by blast

theorem on_message_exception_paths_witness:
  "on_message (stub_externals test_table) (test_filter [(''default'', DEFAULT_KEY)] ''filtered/test'')
       (test_msg bad_payload)
     = ((test_filter [(''default'', DEFAULT_KEY)] ''filtered/test'')
          \<lparr>stats := init_stats\<lparr>total := 1\<rparr>\<rparr>, []) \<and>
   outcome_sum (init_stats\<lparr>total := 1\<rparr>) < total (init_stats\<lparr>total := 1\<rparr>) \<and>
   on_message (stub_externals test_table) (test_filter [(''default'', DEFAULT_KEY)] ''filtered/+'')
       (test_msg enc_payload)
     = ((test_filter [(''default'', DEFAULT_KEY)] ''filtered/+'')
          \<lparr>stats := init_stats\<lparr>total := 1, decrypted := 1, forwarded := 1\<rparr>\<rparr>, [])"
proof -
  have "parse_envelope (stub_externals test_table) (msg_payload (test_msg bad_payload)) = None"
    by (simp add: test_msg_fields stub_parse_envelope)
  with on_message_exception_paths [of "stub_externals test_table"
      "test_filter [(''default'', DEFAULT_KEY)] ''filtered/test''" "test_msg bad_payload"]
  have "on_message (stub_externals test_table)
      (test_filter [(''default'', DEFAULT_KEY)] ''filtered/test'') (test_msg bad_payload)
    = ((test_filter [(''default'', DEFAULT_KEY)] ''filtered/test'')
        \<lparr>stats := (stats (test_filter [(''default'', DEFAULT_KEY)] ''filtered/test''))
           \<lparr>total := total (stats (test_filter [(''default'', DEFAULT_KEY)] ''filtered/test'')) + 1\<rparr>\<rparr>,
       [])"
    by blast
  then have a: "on_message (stub_externals test_table)
      (test_filter [(''default'', DEFAULT_KEY)] ''filtered/test'') (test_msg bad_payload)
    = ((test_filter [(''default'', DEFAULT_KEY)] ''filtered/test'')
          \<lparr>stats := init_stats\<lparr>total := 1\<rparr>\<rparr>, []) \<and>
      outcome_sum (init_stats\<lparr>total := 1\<rparr>) < total (init_stats\<lparr>total := 1\<rparr>)"
    by (simp add: test_filter_fields outcome_sum_def init_stats_def)
  from wildcard_delivery on_message_exception_paths [of "stub_externals test_table"
      "test_filter [(''default'', DEFAULT_KEY)] ''filtered/+''" "test_msg enc_payload"]
  have "on_message (stub_externals test_table)
      (test_filter [(''default'', DEFAULT_KEY)] ''filtered/+'') (test_msg enc_payload)
    = ((test_filter [(''default'', DEFAULT_KEY)] ''filtered/+'')
        \<lparr>stats := (init_stats\<lparr>total := 1, decrypted := 1\<rparr>)
           \<lparr>forwarded := forwarded (init_stats\<lparr>total := 1, decrypted := 1\<rparr>) + 1\<rparr>\<rparr>, [])"
    by blast
  then have b: "on_message (stub_externals test_table)
      (test_filter [(''default'', DEFAULT_KEY)] ''filtered/+'') (test_msg enc_payload)
    = ((test_filter [(''default'', DEFAULT_KEY)] ''filtered/+'')
          \<lparr>stats := init_stats\<lparr>total := 1, decrypted := 1, forwarded := 1\<rparr>\<rparr>, [])"
    by (simp add: init_stats_def)
  from a b show ?thesis by blast
qed

text \<open>
  C10 as stated fails for an exception raised after the admission check: with the output
  prefix \<open>filtered/+\<close> the rewritten topic holds a wildcard, \<open>publish\<close> raises on it,
  nothing is published, and \<open>forwarded\<close> has gone from 0 to 1.
\<close>

theorem on_message_exception_counterexample:
  "publish_raises (stub_externals test_table)
     (rewrite_topic (msg_topic (test_msg enc_payload))
        (input_topic (test_filter [(''default'', DEFAULT_KEY)] ''filtered/+''))
        (output_topic (test_filter [(''default'', DEFAULT_KEY)] ''filtered/+'')))
     (msg_payload (test_msg enc_payload)) \<and>
   snd (on_message (stub_externals test_table)
      (test_filter [(''default'', DEFAULT_KEY)] ''filtered/+'') (test_msg enc_payload)) = [] \<and>
   forwarded (stats (test_filter [(''default'', DEFAULT_KEY)] ''filtered/+'')) = 0 \<and>
   forwarded (stats (fst (on_message (stub_externals test_table)
      (test_filter [(''default'', DEFAULT_KEY)] ''filtered/+'') (test_msg enc_payload)))) = 1"
  by (simp add: on_message_wildcard_output test_msg_fields test_filter_fields
      rewrite_wildcard_output publish_raises_wildcard init_stats_def)

end
